theory Spec2Isabelle
  imports Main
begin

section \<open>Values on the wire\<close>

text \<open>
  Identifiers (\<open>roomId\<close>, \<open>participantId\<close>, \<open>deviceId\<close>, names) travel as JSON strings
  or are missing. A field the JavaScript reads is \<open>undefined\<close> when the key is absent,
  \<open>null\<close> when the URL parameter is absent or the JSON value is null, or a string.
  \<open>truthy\<close> is the test JavaScript applies in \<open>if (x)\<close>, \<open>!x\<close> and \<open>x || y\<close>.
  Opaque payload values are \<open>json\<close>. A \<open>string\<close> holds the UTF-8 bytes of the
  JavaScript string, the form in which it arrives in a text frame.
\<close>

datatype jsid = Undefined | Null | Str string

datatype json = JNull | JBool bool | JNum int | JStr string
  | JArr "json list" | JObj "(string \<times> json) list"

fun truthy :: "jsid \<Rightarrow> bool" where
  "truthy (Str s) = (s \<noteq> [])"
| "truthy Undefined = False"
| "truthy Null = False"

text \<open>The same test on a parsed JSON value: arrays and objects always pass.\<close>

fun jtruthy :: "json \<Rightarrow> bool" where
  "jtruthy JNull = False"
| "jtruthy (JBool b) = b"
| "jtruthy (JNum n) = (n \<noteq> 0)"
| "jtruthy (JStr s) = (s \<noteq> [])"
| "jtruthy (JArr xs) = True"
| "jtruthy (JObj kvs) = True"

definition orElse :: "jsid \<Rightarrow> jsid \<Rightarrow> jsid" where
  "orElse a b = (if truthy a then a else b)"

text \<open>\<open>a || s\<close> where \<open>s\<close> is a string: the result is a string.\<close>

fun strOr :: "jsid \<Rightarrow> string \<Rightarrow> string" where
  "strOr (Str s) d = (if s \<noteq> [] then s else d)"
| "strOr Undefined d = d"
| "strOr Null d = d"

definition anonymous :: string where
  "anonymous = ''Anonymous''"

text \<open>The value \<open>JSON.stringify\<close> writes for an identifier; an undefined one is left out.\<close>

fun jsidJson :: "jsid \<Rightarrow> json option" where
  "jsidJson Undefined = None"
| "jsidJson Null = Some JNull"
| "jsidJson (Str s) = Some (JStr s)"

subsection \<open>Strings\<close>

text \<open>
  What \<open>String.prototype.trim\<close> strips from both ends: the white space and line
  terminator code points of ECMAScript (U+0009 to U+000D, U+0020, U+00A0, U+1680, U+2000
  to U+200A, U+2028, U+2029, U+202F, U+205F, U+3000, U+FEFF), each in its UTF-8 form.
\<close>

definition whiteSpace :: "string list" where
  "whiteSpace =
     [[CHR 0x09], [CHR 0x0A], [CHR 0x0B], [CHR 0x0C], [CHR 0x0D], [CHR 0x20],
      [CHR 0xC2, CHR 0xA0],
      [CHR 0xE1, CHR 0x9A, CHR 0x80],
      [CHR 0xE2, CHR 0x80, CHR 0x80], [CHR 0xE2, CHR 0x80, CHR 0x81],
      [CHR 0xE2, CHR 0x80, CHR 0x82], [CHR 0xE2, CHR 0x80, CHR 0x83],
      [CHR 0xE2, CHR 0x80, CHR 0x84], [CHR 0xE2, CHR 0x80, CHR 0x85],
      [CHR 0xE2, CHR 0x80, CHR 0x86], [CHR 0xE2, CHR 0x80, CHR 0x87],
      [CHR 0xE2, CHR 0x80, CHR 0x88], [CHR 0xE2, CHR 0x80, CHR 0x89],
      [CHR 0xE2, CHR 0x80, CHR 0x8A],
      [CHR 0xE2, CHR 0x80, CHR 0xA8], [CHR 0xE2, CHR 0x80, CHR 0xA9],
      [CHR 0xE2, CHR 0x80, CHR 0xAF],
      [CHR 0xE2, CHR 0x81, CHR 0x9F],
      [CHR 0xE3, CHR 0x80, CHR 0x80],
      [CHR 0xEF, CHR 0xBB, CHR 0xBF]]"

text \<open>Removes from the front of \<open>s\<close> every leading occurrence of one of the words.\<close>

function dropLeading :: "string list \<Rightarrow> string \<Rightarrow> string" where
  "dropLeading ws s =
     (case find (\<lambda>w. w \<noteq> [] \<and> take (length w) s = w) ws of
        None \<Rightarrow> s
      | Some w \<Rightarrow> dropLeading ws (drop (length w) s))"
  by pat_completeness auto
termination
proof (relation "measure (\<lambda>p. length (snd p))")
  show "wf (measure (\<lambda>p. length (snd p)))"
    by simp
next
  fix ws :: "string list" and s w :: string
  assume "find (\<lambda>w. w \<noteq> [] \<and> take (length w) s = w) ws = Some w"
  then have w: "w \<noteq> []" and t: "take (length w) s = w"
    by (auto simp: find_Some_iff)
  have "length w = min (length w) (length s)"
    using arg_cong[OF t, of length] by simp
  then have "length w \<le> length s"
    by linarith
  with w show "((ws, drop (length w) s), (ws, s)) \<in> measure (\<lambda>p. length (snd p))"
    by (cases w) auto
qed

declare dropLeading.simps [simp del]

definition trim :: "string \<Rightarrow> string" where
  "trim s = rev (dropLeading (map rev whiteSpace) (rev (dropLeading whiteSpace s)))"

definition digit :: "nat \<Rightarrow> char" where
  "digit d = ''0123456789'' ! d"

function showNat :: "nat \<Rightarrow> string" where
  "showNat n = (if n < 10 then [digit n] else showNat (n div 10) @ [digit (n mod 10)])"
  by pat_completeness auto
termination
  by (relation "measure id") auto

declare showNat.simps [simp del]

definition showInt :: "int \<Rightarrow> string" where
  "showInt i = (if i < 0 then CHR ''-'' # showNat (nat (- i)) else showNat (nat i))"

subsection \<open>JavaScript \<open>Map\<close>\<close>

text \<open>
  A \<open>Map\<close> keeps its keys in insertion order; \<open>set\<close> on a key that is present replaces
  the value where it stands, \<open>delete\<close> removes the key.
\<close>

fun mapSet :: "'k \<Rightarrow> 'v \<Rightarrow> ('k \<times> 'v) list \<Rightarrow> ('k \<times> 'v) list" where
  "mapSet k v [] = [(k, v)]"
| "mapSet k v (e # es) = (if fst e = k then (k, v) # es else e # mapSet k v es)"

definition mapDelete :: "'k \<Rightarrow> ('k \<times> 'v) list \<Rightarrow> ('k \<times> 'v) list" where
  "mapDelete k es = filter (\<lambda>e. fst e \<noteq> k) es"

definition mapGet :: "('k \<times> 'v) list \<Rightarrow> 'k \<Rightarrow> 'v option" where
  "mapGet es k = map_of es k"

section \<open>Connections\<close>

datatype service = RoomService | DeviceService | NoService

datatype readyState = CONNECTING | OPEN | CLOSING | CLOSED

text \<open>
  The attributes \<open>server.js\<close> hangs on a socket object (\<open>ws.serviceType\<close>, \<open>ws.roomId\<close>,
  ...). Sockets live in a store indexed by a number, so that the registries can hold
  references to them and a stale reference still reads the socket it points to.
\<close>

record conn =
  serviceType :: service
  readyState :: readyState
  ws_roomId :: string
  ws_participantId :: jsid
  ws_participantName :: string
  ws_role :: string
  leftHandled :: bool
  ws_deviceId :: jsid

section \<open>The persisted room (models/Room.js)\<close>

text \<open>
  The paths of \<open>roomSchema\<close> that \<open>server.js\<close> reads or writes. The handlers also assign
  \<open>sessionStartTime\<close> and \<open>metadata.reconnections\<close>; the schema has neither path, so
  these assignments reach no stored document and nothing reads them back but the
  assignment of \<open>sessionStartTime\<close> itself. Call recordings are written by the HTTP
  routes only.
\<close>

datatype status = Waiting | Active | Ended

record participant =
  participantId :: jsid
  participantName :: string
  role :: string
  joinedAt :: int
  leftAt :: "int option"

record chatMessage =
  senderId :: jsid
  senderName :: string
  message :: string
  timestamp :: int
  cm_sessionId :: "string option"

record dbRoom =
  roomId :: string
  sessionId :: "string option"
  creator :: "jsid \<times> string \<times> string"
  participants :: "participant list"
  chatMessages :: "chatMessage list"
  status :: status
  callStartTime :: "int option"
  callEndTime :: "int option"
  callDuration :: int
  totalParticipants :: nat
  maxParticipants :: nat
  updatedAt :: int

text \<open>\<open>roomSchema.methods.addParticipant\<close>; \<open>new Date()\<close> is the argument \<open>now\<close>.\<close>

definition addParticipant :: "int \<Rightarrow> jsid \<Rightarrow> string \<Rightarrow> string \<Rightarrow> dbRoom \<Rightarrow> dbRoom" where
  "addParticipant now pid pname r d =
     (if list_ex (\<lambda>p. participantId p = pid) (participants d) then d
      else
        (let ps = participants d @
               [\<lparr>participantId = pid, participantName = pname, role = r,
                 joinedAt = now, leftAt = None\<rparr>]
         in d\<lparr>participants := ps, totalParticipants := length ps\<rparr>))"

text \<open>\<open>roomSchema.methods.removeParticipant\<close>: the first entry with that id gets \<open>leftAt\<close>, once.\<close>

fun markLeft :: "int \<Rightarrow> jsid \<Rightarrow> participant list \<Rightarrow> participant list" where
  "markLeft now pid [] = []"
| "markLeft now pid (p # ps) =
     (if participantId p = pid
      then (if leftAt p = None then p\<lparr>leftAt := Some now\<rparr> else p) # ps
      else p # markLeft now pid ps)"

definition removeParticipant :: "int \<Rightarrow> jsid \<Rightarrow> dbRoom \<Rightarrow> dbRoom" where
  "removeParticipant now pid d = d\<lparr>participants := markLeft now pid (participants d)\<rparr>"

text \<open>
  \<open>roomSchema.methods.calculateDuration\<close>: \<open>Math.floor((end - start) / 1000)\<close>; \<open>div\<close> on
  \<open>int\<close> rounds towards minus infinity, as \<open>Math.floor\<close> does.
\<close>

definition calculateDuration :: "dbRoom \<Rightarrow> dbRoom" where
  "calculateDuration d =
     (case (callStartTime d, callEndTime d) of
        (Some t0, Some t1) \<Rightarrow> d\<lparr>callDuration := (t1 - t0) div 1000\<rparr>
      | _ \<Rightarrow> d)"

definition addChatMessage :: "int \<Rightarrow> jsid \<Rightarrow> string \<Rightarrow> string \<Rightarrow> dbRoom \<Rightarrow> dbRoom" where
  "addChatMessage now sid sname msg d =
     d\<lparr>chatMessages := chatMessages d @
         [\<lparr>senderId = sid, senderName = sname, message = msg, timestamp = now,
           cm_sessionId = None\<rparr>]\<rparr>"

subsection \<open>Validation on save\<close>

text \<open>
  \<open>document.save()\<close> runs the validators of the schema over the document and throws when
  one fails: a \<open>required\<close> string must be present and not empty, a role must be one of the
  \<open>enum\<close>. \<open>save\<close> is the store after the call, \<open>None\<close> when it throws.
\<close>

definition roles :: "string list" where
  "roles = [''admin'', ''user'']"

definition validParticipant :: "participant \<Rightarrow> bool" where
  "validParticipant p =
     (truthy (participantId p) \<and> participantName p \<noteq> [] \<and> role p \<in> set roles)"

definition validChat :: "chatMessage \<Rightarrow> bool" where
  "validChat c = (truthy (senderId c) \<and> senderName c \<noteq> [] \<and> message c \<noteq> [])"

definition validRoom :: "dbRoom \<Rightarrow> bool" where
  "validRoom d =
     (roomId d \<noteq> [] \<and>
      truthy (fst (creator d)) \<and> fst (snd (creator d)) \<noteq> [] \<and>
      snd (snd (creator d)) \<in> set roles \<and>
      list_all validParticipant (participants d) \<and>
      list_all validChat (chatMessages d))"

definition save :: "string \<Rightarrow> dbRoom \<Rightarrow> (string \<rightharpoonup> dbRoom) \<Rightarrow> (string \<rightharpoonup> dbRoom) option" where
  "save rid d db = (if validRoom d then Some (db(rid \<mapsto> d)) else None)"

section \<open>Messages\<close>

text \<open>An inbound message on a room connection: the fields \<open>handleRoomMessage\<close> reads.\<close>

record roomMsg =
  m_type :: string
  m_roomId :: jsid
  m_participantId :: jsid
  m_participantName :: jsid
  m_senderId :: jsid
  m_senderName :: jsid
  m_message :: jsid
  m_targetParticipantId :: jsid
  m_mediaType :: "json option"
  m_enabled :: "json option"
  m_rest :: "(string \<times> json) list"

text \<open>
  An inbound message on a device connection, as \<open>handleDeviceMessage\<close> destructures it:
  \<open>type\<close>, \<open>targetDeviceId\<close> and the payload, of which the handler names \<open>deviceId\<close> and
  \<open>deviceName\<close> (any JSON value, \<open>None\<close> when the key is absent); \<open>d_rest\<close> holds the
  payload's other keys.
\<close>

record deviceMsg =
  d_type :: string
  d_targetDeviceId :: jsid
  d_deviceId :: jsid
  d_deviceName :: "json option"
  d_rest :: "(string \<times> json) list"

record historyEntry =
  h_senderId :: jsid
  h_senderName :: string
  h_message :: string
  h_timestamp :: int
  h_sessionId :: "string option"

datatype outMsg =
    RoomStatusFull string
  | RoomStatusWaiting string string
  | RoomStatusReady string string jsid string string
  | ChatHistory string "historyEntry list" nat
  | ParticipantJoined jsid string string
  | ParticipantLeft jsid
  | ChatEvent string jsid jsid string string int
  | RoomRelay roomMsg
  | AdminMediaControl "json option" "json option" jsid
  | ErrorMsg string
  | Registered jsid
  | DeviceRelay "(string \<times> json) list"

section \<open>The coordinator's state\<close>

text \<open>
  A handler that waits for the store. \<open>handleJoinRoom\<close>, \<open>handleParticipantLeave\<close> and the
  \<open>chat-message\<close> branch of \<open>handleRoomMessage\<close> are \<open>async\<close>, and the listeners do not
  wait for them: each runs up to its first \<open>await\<close> (a \<open>findOne\<close>) and goes on when the
  store answers, other handlers running in between. A task holds what the suspended
  handler goes on with: its arguments and the room object it took from the registry.
\<close>

datatype task =
    JoinTask nat string jsid string string nat
  | LeaveTask string jsid nat
  | ChatTask string jsid jsid string string int

text \<open>
  \<open>rooms\<close> and \<open>connectedDevices\<close> are the two module-level maps of \<open>server.js\<close>;
  \<open>roomDb\<close> and \<open>deviceDb\<close> are the two collections of the document store (a device
  document holds its status); \<open>outbox\<close> records every \<open>ws.send\<close> in order, with the socket
  it was called on, whatever the socket then does with the message.

  A room of the registry is an object, and a suspended handler keeps the object it read
  even when \<open>rooms.delete\<close> has removed it from the registry since. \<open>rooms\<close> holds the
  entries of the room registered under each id and \<open>roomObj\<close> the number of that object;
  \<open>lostRooms\<close> holds the entries of the objects that are no longer registered.
  \<open>pending\<close> are the suspended handlers.
\<close>

record state =
  conns :: "nat \<Rightarrow> conn"
  nextConn :: nat
  rooms :: "string \<rightharpoonup> (jsid \<times> nat) list"
  connectedDevices :: "jsid \<rightharpoonup> nat"
  roomDb :: "string \<rightharpoonup> dbRoom"
  deviceDb :: "jsid \<rightharpoonup> string"
  outbox :: "(nat \<times> outMsg) list"
  roomObj :: "string \<Rightarrow> nat"
  lostRooms :: "nat \<Rightarrow> (jsid \<times> nat) list"
  nextRoomObj :: nat
  pending :: "nat \<rightharpoonup> task"
  nextTask :: nat

definition send :: "nat \<Rightarrow> outMsg \<Rightarrow> state \<Rightarrow> state" where
  "send w m s = s\<lparr>outbox := outbox s @ [(w, m)]\<rparr>"

definition isOpen :: "state \<Rightarrow> nat \<Rightarrow> bool" where
  "isOpen s w = (readyState (conns s w) = OPEN)"

definition suspend :: "task \<Rightarrow> state \<Rightarrow> state" where
  "suspend t s = s\<lparr>pending := (pending s)(nextTask s \<mapsto> t), nextTask := Suc (nextTask s)\<rparr>"

subsection \<open>Room objects\<close>

text \<open>\<open>rooms.set(roomId, { participants: new Map() })\<close>\<close>

definition createRoom :: "string \<Rightarrow> state \<Rightarrow> state" where
  "createRoom rid s =
     s\<lparr>rooms := (rooms s)(rid \<mapsto> []),
       roomObj := (roomObj s)(rid := nextRoomObj s),
       nextRoomObj := Suc (nextRoomObj s)\<rparr>"

text \<open>\<open>room.participants\<close> of the object \<open>room\<close> that a handler read under \<open>rid\<close>.\<close>

definition roomMembers :: "state \<Rightarrow> string \<Rightarrow> nat \<Rightarrow> (jsid \<times> nat) list" where
  "roomMembers s rid room =
     (case rooms s rid of
        None \<Rightarrow> lostRooms s room
      | Some ps \<Rightarrow> (if roomObj s rid = room then ps else lostRooms s room))"

definition setRoomMembers :: "string \<Rightarrow> nat \<Rightarrow> (jsid \<times> nat) list \<Rightarrow> state \<Rightarrow> state" where
  "setRoomMembers rid room ps s =
     (if rooms s rid \<noteq> None \<and> roomObj s rid = room
      then s\<lparr>rooms := (rooms s)(rid \<mapsto> ps)\<rparr>
      else s\<lparr>lostRooms := (lostRooms s)(room := ps)\<rparr>)"

text \<open>\<open>rooms.delete(roomId)\<close>: the object leaves the registry and keeps its entries.\<close>

definition deleteRoom :: "string \<Rightarrow> state \<Rightarrow> state" where
  "deleteRoom rid s =
     (case rooms s rid of
        None \<Rightarrow> s
      | Some ps \<Rightarrow> s\<lparr>rooms := (rooms s)(rid := None),
                      lostRooms := (lostRooms s)(roomObj s rid := ps)\<rparr>)"

text \<open>The \<open>decrypt\<close> of \<open>server.js\<close>; \<open>aes\<close> is CryptoJS, \<open>None\<close> when it throws.\<close>

definition decrypt :: "(string \<Rightarrow> string option) \<Rightarrow> string \<Rightarrow> string" where
  "decrypt aes c =
     (if c = [] then anonymous
      else (case aes c of
              None \<Rightarrow> anonymous
            | Some plain \<Rightarrow> (if plain = [] then anonymous else plain)))"

definition chatHistory :: "(string \<Rightarrow> string option) \<Rightarrow> string \<Rightarrow> dbRoom \<Rightarrow> outMsg" where
  "chatHistory aes rid d =
     (let decrypted = map (\<lambda>m. \<lparr>h_senderId = senderId m,
                                 h_senderName = decrypt aes (senderName m),
                                 h_message = decrypt aes (message m),
                                 h_timestamp = timestamp m,
                                 h_sessionId = cm_sessionId m\<rparr>) (chatMessages d)
      in ChatHistory rid decrypted (length decrypted))"

section \<open>Room coordinator (server.js)\<close>

definition mkSessionId :: "string \<Rightarrow> int \<Rightarrow> string" where
  "mkSessionId rid now = rid @ ''-'' @ showInt now"

definition nameOrAnonymous :: "string \<Rightarrow> string" where
  "nameOrAnonymous n = (if n = [] then anonymous else n)"

text \<open>The document \<open>handleJoinRoom\<close> builds when \<open>findOne\<close> finds none.\<close>

definition newRoom :: "int \<Rightarrow> string \<Rightarrow> jsid \<Rightarrow> string \<Rightarrow> string \<Rightarrow> dbRoom" where
  "newRoom now rid pid pname r =
     \<lparr>roomId = rid,
      sessionId = Some (mkSessionId rid now),
      creator = (pid, nameOrAnonymous pname, r),
      participants = [\<lparr>participantId = pid, participantName = nameOrAnonymous pname,
                       role = r, joinedAt = now, leftAt = None\<rparr>],
      chatMessages = [],
      status = Waiting,
      callStartTime = None,
      callEndTime = None,
      callDuration = 0,
      totalParticipants = 1,
      maxParticipants = 2,
      updatedAt = now\<rparr>"

text \<open>The branch \<open>dbRoom.status === 'ended'\<close> of \<open>handleJoinRoom\<close>: a fresh session.\<close>

definition freshSession :: "int \<Rightarrow> string \<Rightarrow> dbRoom \<Rightarrow> dbRoom" where
  "freshSession now rid d =
     d\<lparr>participants := [],
       callStartTime := None,
       callEndTime := None,
       callDuration := 0,
       sessionId := Some (mkSessionId rid now),
       status := Waiting,
       totalParticipants := 0\<rparr>"

text \<open>
  Lines 239 to 293 of \<open>handleJoinRoom\<close>: load or create the document. The result is the
  document the handler goes on with and the store after the \<open>save\<close> made so far; \<open>None\<close>
  when that \<open>save\<close> throws, which takes the handler to its \<open>catch\<close>.
\<close>

definition loadRoom ::
  "int \<Rightarrow> string \<Rightarrow> jsid \<Rightarrow> string \<Rightarrow> string \<Rightarrow> (string \<rightharpoonup> dbRoom)
     \<Rightarrow> (dbRoom \<times> (string \<rightharpoonup> dbRoom)) option" where
  "loadRoom now rid pid pname r db =
     (case db rid of
        None \<Rightarrow>
          (let d = newRoom now rid pid pname r
           in map_option (Pair d) (save rid d db))
      | Some d0 \<Rightarrow>
          (let d1 = (if status d0 = Ended then freshSession now rid d0 else d0)
           in if find (\<lambda>p. participantId p = pid) (participants d1) = None
              then (let d2 = addParticipant now pid (nameOrAnonymous pname) r d1
                    in map_option (Pair d2) (save rid d2 db))
              else Some (d1, db)))"

text \<open>The branch for a joiner who finds somebody registered: the call starts.\<close>

definition startCall :: "int \<Rightarrow> dbRoom \<Rightarrow> dbRoom" where
  "startCall now d = d\<lparr>callStartTime := Some now, status := Active\<rparr>"

text \<open>
  Lines 224 to 237: the room object is made if the registry has none, and a room with two
  entries is answered \<open>full\<close>. Otherwise the handler waits for \<open>findOne\<close>, holding the room
  object.
\<close>

definition joinStart :: "nat \<Rightarrow> string \<Rightarrow> state \<Rightarrow> state \<times> nat option" where
  "joinStart ws rid s =
     (let s1 = (if rooms s rid = None then createRoom rid s else s);
          room = roomObj s1 rid
      in if 2 \<le> length (roomMembers s1 rid room)
         then (send ws (RoomStatusFull rid) s1, None)
         else (s1, Some room))"

text \<open>
  Lines 295 to 371, with the document \<open>d\<close> in hand: the entries are read, the joiner is
  entered, and the replies depend on the entries read. When the \<open>save\<close> of the started
  call throws, the handler ends in its \<open>catch\<close> with the joiner entered and nothing sent.
\<close>

definition seatJoiner ::
  "(string \<Rightarrow> string option) \<Rightarrow> int \<Rightarrow> nat \<Rightarrow> string \<Rightarrow> jsid \<Rightarrow> string \<Rightarrow> string \<Rightarrow> nat
     \<Rightarrow> dbRoom \<Rightarrow> state \<Rightarrow> state" where
  "seatJoiner aes now ws rid pid pname r room d s =
     (let existingParticipants = roomMembers s rid room;
          s1 = setRoomMembers rid room (mapSet pid ws existingParticipants) s
      in case existingParticipants of
           [] \<Rightarrow> send ws (chatHistory aes rid d) (send ws (RoomStatusWaiting rid r) s1)
         | (otherParticipantId, otherWs) # _ \<Rightarrow>
             (case (if status d = Waiting
                    then map_option (Pair (startCall now d))
                           (save rid (startCall now d) (roomDb s1))
                    else Some (d, roomDb s1)) of
                None \<Rightarrow> s1
              | Some (d', db) \<Rightarrow>
                  (let s2 = s1\<lparr>roomDb := db\<rparr>;
                       s3 = send ws (RoomStatusReady rid r otherParticipantId
                                       (ws_participantName (conns s2 otherWs))
                                       (ws_role (conns s2 otherWs))) s2;
                       s4 = send ws (chatHistory aes rid d') s3
                   in send otherWs (ParticipantJoined pid pname r) s4)))"

text \<open>\<open>handleJoinRoom\<close> from the answer of \<open>findOne\<close> on.\<close>

definition joinLoaded ::
  "(string \<Rightarrow> string option) \<Rightarrow> int \<Rightarrow> nat \<Rightarrow> string \<Rightarrow> jsid \<Rightarrow> string \<Rightarrow> string \<Rightarrow> nat
     \<Rightarrow> state \<Rightarrow> state" where
  "joinLoaded aes now ws rid pid pname r room s =
     (case loadRoom now rid pid pname r (roomDb s) of
        None \<Rightarrow> s
      | Some (d, db) \<Rightarrow> seatJoiner aes now ws rid pid pname r room d (s\<lparr>roomDb := db\<rparr>))"

text \<open>\<open>handleJoinRoom\<close> when the store answers at once.\<close>

definition handleJoinRoom ::
  "(string \<Rightarrow> string option) \<Rightarrow> int \<Rightarrow> nat \<Rightarrow> string \<Rightarrow> jsid \<Rightarrow> string \<Rightarrow> string
     \<Rightarrow> state \<Rightarrow> state" where
  "handleJoinRoom aes now ws rid pid pname r s =
     (case joinStart ws rid s of
        (s1, None) \<Rightarrow> s1
      | (s1, Some room) \<Rightarrow> joinLoaded aes now ws rid pid pname r room s1)"

text \<open>\<open>handleParticipantLeave\<close>, run by a \<open>leave-room\<close> message and by the socket's close.\<close>

definition sendAll :: "outMsg \<Rightarrow> (jsid \<times> nat) list \<Rightarrow> state \<Rightarrow> state" where
  "sendAll m ps s = foldl (\<lambda>st e. send (snd e) m st) s ps"

definition endCall :: "int \<Rightarrow> dbRoom \<Rightarrow> dbRoom" where
  "endCall now d = (calculateDuration (d\<lparr>callEndTime := Some now\<rparr>))\<lparr>status := Ended\<rparr>"

text \<open>
  What the leave handler does to the document it loaded (lines 422 to 436);
  \<open>activeParticipants\<close> is the size of the room after the socket's key was deleted.
\<close>

definition recordLeave :: "int \<Rightarrow> jsid \<Rightarrow> nat \<Rightarrow> dbRoom \<Rightarrow> dbRoom" where
  "recordLeave now pid activeParticipants d =
     (let d1 = removeParticipant now pid d;
          d2 = (if activeParticipants = 0 \<and> status d1 = Active then endCall now d1 else d1)
      in d2\<lparr>updatedAt := now\<rparr>)"

text \<open>
  Lines 408 to 418: the one-shot flag, the guards, and the removal of the socket's key
  from the room object. Then the handler waits for \<open>findOne\<close>.
\<close>

definition leaveStart :: "nat \<Rightarrow> state \<Rightarrow> state \<times> (string \<times> jsid \<times> nat) option" where
  "leaveStart ws s =
     (if leftHandled (conns s ws) then (s, None)
      else
        (let s1 = s\<lparr>conns := (conns s)(ws := (conns s ws)\<lparr>leftHandled := True\<rparr>)\<rparr>;
             rid = ws_roomId (conns s ws);
             pid = ws_participantId (conns s ws)
         in if rid = [] \<or> \<not> truthy pid then (s1, None)
            else
              (case rooms s1 rid of
                 None \<Rightarrow> (s1, None)
               | Some ps \<Rightarrow>
                   (s1\<lparr>rooms := (rooms s1)(rid \<mapsto> mapDelete pid ps)\<rparr>,
                    Some (rid, pid, roomObj s1 rid)))))"

text \<open>
  Lines 420 to 451, from the answer of \<open>findOne\<close> on. When \<open>save\<close> throws, the \<open>catch\<close>
  skips the notifications and the removal of the empty room.
\<close>

definition leaveLoaded :: "int \<Rightarrow> string \<Rightarrow> jsid \<Rightarrow> nat \<Rightarrow> state \<Rightarrow> state" where
  "leaveLoaded now rid pid room s =
     (case (case roomDb s rid of
              None \<Rightarrow> Some (roomDb s)
            | Some d \<Rightarrow>
                save rid (recordLeave now pid (length (roomMembers s rid room)) d) (roomDb s)) of
        None \<Rightarrow> s
      | Some db \<Rightarrow>
          (let s1 = sendAll (ParticipantLeft pid) (roomMembers s rid room) (s\<lparr>roomDb := db\<rparr>)
           in if length (roomMembers s rid room) = 0 then deleteRoom rid s1 else s1))"

definition handleParticipantLeave :: "int \<Rightarrow> nat \<Rightarrow> state \<Rightarrow> state" where
  "handleParticipantLeave now ws s =
     (case leaveStart ws s of
        (s1, None) \<Rightarrow> s1
      | (s1, Some (rid, pid, room)) \<Rightarrow> leaveLoaded now rid pid room s1)"

definition broadcastToRoom :: "string \<Rightarrow> jsid \<Rightarrow> outMsg \<Rightarrow> bool \<Rightarrow> state \<Rightarrow> state" where
  "broadcastToRoom rid sender m includeSender s =
     (case rooms s rid of
        None \<Rightarrow> s
      | Some ps \<Rightarrow>
          foldl (\<lambda>st e. if (includeSender \<or> fst e \<noteq> sender) \<and> isOpen st (snd e)
                         then send (snd e) m st else st) s ps)"

text \<open>\<open>saveChatMessage\<close>; its own \<open>catch\<close> swallows a \<open>save\<close> that throws.\<close>

definition saveChatMessage :: "int \<Rightarrow> string \<Rightarrow> jsid \<Rightarrow> string \<Rightarrow> string \<Rightarrow> state \<Rightarrow> state" where
  "saveChatMessage now rid sid sname msg s =
     (case roomDb s rid of
        None \<Rightarrow> s
      | Some d \<Rightarrow>
          (case save rid (addChatMessage now sid (nameOrAnonymous sname) msg d) (roomDb s) of
             None \<Rightarrow> s
           | Some db \<Rightarrow> s\<lparr>roomDb := db\<rparr>))"

definition handleAdminMediaControl :: "nat \<Rightarrow> roomMsg \<Rightarrow> state \<Rightarrow> state" where
  "handleAdminMediaControl ws m s =
     (if ws_role (conns s ws) \<noteq> ''admin''
      then send ws (ErrorMsg ''Only admins can control participant media'') s
      else
        (case rooms s (ws_roomId (conns s ws)) of
           None \<Rightarrow> s
         | Some ps \<Rightarrow>
             (case mapGet ps (m_targetParticipantId m) of
                None \<Rightarrow> s
              | Some targetWs \<Rightarrow>
                  (if isOpen s targetWs
                   then send targetWs (AdminMediaControl (m_mediaType m) (m_enabled m)
                                         (ws_participantId (conns s ws))) s
                   else s))))"

text \<open>\<open>handleRoomMessage\<close> when the store answers at once.\<close>

definition handleRoomMessage ::
  "(string \<Rightarrow> string option) \<Rightarrow> int \<Rightarrow> nat \<Rightarrow> roomMsg \<Rightarrow> state \<Rightarrow> state" where
  "handleRoomMessage aes now ws m s =
     (let rid = strOr (m_roomId m) (ws_roomId (conns s ws));
          pid = orElse (m_participantId m) (ws_participantId (conns s ws));
          pname = strOr (m_participantName m) (nameOrAnonymous (ws_participantName (conns s ws)))
      in if m_type m = ''join-room''
         then handleJoinRoom aes now ws rid pid pname (ws_role (conns s ws)) s
         else if m_type m = ''leave-room''
         then handleParticipantLeave now ws s
         else if m_type m = ''chat-message''
         then
           (let chatSenderId = orElse (m_senderId m) pid;
                chatSenderName = strOr (m_senderName m) pname;
                chatMessage = strOr (m_message m) [];
                s1 = saveChatMessage now (ws_roomId (conns s ws)) chatSenderId chatSenderName
                       chatMessage s
            in broadcastToRoom (ws_roomId (conns s ws)) (ws_participantId (conns s ws))
                 (ChatEvent (ws_roomId (conns s ws)) chatSenderId chatSenderId chatSenderName
                    chatMessage now) False s1)
         else if m_type m \<in> {''webrtc-offer'', ''webrtc-answer'', ''webrtc-ice-candidate''}
         then broadcastToRoom (ws_roomId (conns s ws)) (ws_participantId (conns s ws))
                (RoomRelay m) False s
         else if m_type m = ''admin-control-media''
         then handleAdminMediaControl ws m s
         else s)"

text \<open>
  \<open>handleRoomMessage\<close> up to its first \<open>await\<close>: the three handlers that wait for the
  store are suspended, the others have none and run to their end.
\<close>

definition receiveRoomMessage ::
  "(string \<Rightarrow> string option) \<Rightarrow> int \<Rightarrow> nat \<Rightarrow> roomMsg \<Rightarrow> state \<Rightarrow> state" where
  "receiveRoomMessage aes now ws m s =
     (let rid = strOr (m_roomId m) (ws_roomId (conns s ws));
          pid = orElse (m_participantId m) (ws_participantId (conns s ws));
          pname = strOr (m_participantName m) (nameOrAnonymous (ws_participantName (conns s ws)))
      in if m_type m = ''join-room''
         then (case joinStart ws rid s of
                 (s1, None) \<Rightarrow> s1
               | (s1, Some room) \<Rightarrow>
                   suspend (JoinTask ws rid pid pname (ws_role (conns s ws)) room) s1)
         else if m_type m = ''leave-room''
         then (case leaveStart ws s of
                 (s1, None) \<Rightarrow> s1
               | (s1, Some (rid', pid', room)) \<Rightarrow> suspend (LeaveTask rid' pid' room) s1)
         else if m_type m = ''chat-message''
         then suspend (ChatTask (ws_roomId (conns s ws)) (ws_participantId (conns s ws))
                         (orElse (m_senderId m) pid) (strOr (m_senderName m) pname)
                         (strOr (m_message m) []) now) s
         else handleRoomMessage aes now ws m s)"

text \<open>
  A suspended handler goes on when \<open>findOne\<close> answers, at clock reading \<open>now\<close>, and runs to
  its end: its later \<open>await\<close>s, each a \<open>save\<close>, are answered before another handler runs.
  (What the store makes of two documents loaded and saved in overlapping order is a matter
  of the store, not of this code.) A chat event carries the time the message arrived, the
  stored message the time it is appended.
\<close>

fun resume :: "(string \<Rightarrow> string option) \<Rightarrow> int \<Rightarrow> task \<Rightarrow> state \<Rightarrow> state" where
  "resume aes now (JoinTask ws rid pid pname r room) s =
     joinLoaded aes now ws rid pid pname r room s"
| "resume aes now (LeaveTask rid pid room) s = leaveLoaded now rid pid room s"
| "resume aes now (ChatTask rid sender sid sname msg arrived) s =
     broadcastToRoom rid sender (ChatEvent rid sid sid sname msg arrived) False
       (saveChatMessage now rid sid sname msg s)"

section \<open>Device relay (server.js)\<close>

text \<open>What a template literal writes for an identifier.\<close>

fun idString :: "jsid \<Rightarrow> string" where
  "idString (Str s) = s"
| "idString Undefined = ''undefined''"
| "idString Null = ''null''"

definition field :: "string \<Rightarrow> jsid \<Rightarrow> (string \<times> json) list" where
  "field k v = (case jsidJson v of None \<Rightarrow> [] | Some j \<Rightarrow> [(k, j)])"

text \<open>\<open>{ ...a, ...b }\<close>: the keys of \<open>b\<close> are set on \<open>a\<close> one after the other.\<close>

definition spread :: "(string \<times> json) list \<Rightarrow> (string \<times> json) list \<Rightarrow> (string \<times> json) list" where
  "spread a b = foldl (\<lambda>obj e. mapSet (fst e) (snd e) obj) a b"

text \<open>
  \<open>if (payload.deviceName) payload.deviceName = payload.deviceName.trim() || 'Anonymous'\<close>.
  Only a string has \<open>trim\<close>: on any other value that passes the test the call throws.
\<close>

fun trimThrows :: "json option \<Rightarrow> bool" where
  "trimThrows None = False"
| "trimThrows (Some (JStr n)) = False"
| "trimThrows (Some v) = jtruthy v"

fun normalizeDeviceName :: "json option \<Rightarrow> json option" where
  "normalizeDeviceName (Some (JStr n)) =
     Some (JStr (if n = [] then n else if trim n = [] then anonymous else trim n))"
| "normalizeDeviceName v = v"

definition namedKeys :: "string list" where
  "namedKeys = [''type'', ''targetDeviceId'', ''deviceId'', ''deviceName'']"

text \<open>
  The object \<open>payload\<close> after the destructuring and the normalisation of \<open>deviceName\<close>:
  the message without \<open>type\<close> and \<open>targetDeviceId\<close>. An object is read by key (\<open>mapGet\<close>);
  the two keys the handler names stand first here, wherever the message had them.
\<close>

definition payloadOf :: "deviceMsg \<Rightarrow> (string \<times> json) list" where
  "payloadOf m =
     field ''deviceId'' (d_deviceId m) @
     (case normalizeDeviceName (d_deviceName m) of
        None \<Rightarrow> []
      | Some v \<Rightarrow> [(''deviceName'', v)]) @
     d_rest m"

definition relayTypes :: "string list" where
  "relayTypes = [''call-initiate'', ''call-accept'', ''call-reject'', ''call-busy'',
                 ''call-end'', ''call-missed'', ''chat-message'', ''webrtc-offer'',
                 ''webrtc-answer'', ''webrtc-ice-candidate'']"

text \<open>\<open>Device.findOneAndUpdate\<close>: changes the status of the device's document, if there is one.\<close>

definition updateDeviceStatus :: "jsid \<Rightarrow> string \<Rightarrow> state \<Rightarrow> state" where
  "updateDeviceStatus did st s =
     (case deviceDb s did of
        None \<Rightarrow> s
      | Some _ \<Rightarrow> s\<lparr>deviceDb := (deviceDb s)(did \<mapsto> st)\<rparr>)"

text \<open>\<open>{ type, fromDeviceId: ws.deviceId, ...sanitizedPayload }\<close>\<close>

definition forwardedObject :: "state \<Rightarrow> nat \<Rightarrow> deviceMsg \<Rightarrow> (string \<times> json) list" where
  "forwardedObject s ws m =
     spread ([(''type'', JStr (d_type m))] @ field ''fromDeviceId'' (ws_deviceId (conns s ws)))
            (payloadOf m)"

text \<open>
  \<open>handleDeviceMessage\<close>. When \<open>trim\<close> throws, the \<open>catch\<close> of the message listener logs the
  error and nothing else happens.
\<close>

definition handleDeviceMessage :: "nat \<Rightarrow> deviceMsg \<Rightarrow> state \<Rightarrow> state" where
  "handleDeviceMessage ws m s =
     (if trimThrows (d_deviceName m) then s
      else if d_type m = ''register''
      then
        (let did = d_deviceId m;
             s1 = s\<lparr>conns := (conns s)(ws := (conns s ws)\<lparr>ws_deviceId := did\<rparr>),
                    connectedDevices := (connectedDevices s)(did \<mapsto> ws)\<rparr>;
             s2 = updateDeviceStatus did ''online'' s1
         in send ws (Registered did) s2)
      else if d_type m \<in> set relayTypes
      then
        (if \<not> truthy (d_targetDeviceId m)
         then send ws (ErrorMsg ''Missing targetDeviceId'') s
         else
           (case connectedDevices s (d_targetDeviceId m) of
              Some targetWs \<Rightarrow>
                (if isOpen s targetWs then send targetWs (DeviceRelay (forwardedObject s ws m)) s
                 else send ws (ErrorMsg (''Device '' @ idString (d_targetDeviceId m) @
                                          '' is not connected'')) s)
            | None \<Rightarrow>
                send ws (ErrorMsg (''Device '' @ idString (d_targetDeviceId m) @
                                    '' is not connected'')) s))
      else s)"

section \<open>HTTP routes on a room (routes/Room.js)\<close>

text \<open>
  The routes that change the course of a call work on the same collection while sockets
  are seated: \<open>PATCH start-call\<close>, \<open>PATCH end-call\<close>, \<open>PATCH status\<close>, \<open>DELETE\<close> of a room
  (which ends it) and \<open>DELETE permanent\<close>. \<open>findOneAndUpdate\<close> runs no validator. The
  other routes (a room is created, a participant, a chat message or a recording added)
  and any other client of the collection are \<open>OtherWrite\<close>: some change of the documents.
\<close>

datatype request =
    StartCall string
  | EndCall string
  | SetStatus string status
  | EndRoom string
  | DeleteRoom string
  | OtherWrite "(string \<rightharpoonup> dbRoom) \<Rightarrow> (string \<rightharpoonup> dbRoom)"

definition saved :: "string \<Rightarrow> dbRoom \<Rightarrow> (string \<rightharpoonup> dbRoom) \<Rightarrow> (string \<rightharpoonup> dbRoom)" where
  "saved rid d db = (case save rid d db of None \<Rightarrow> db | Some db' \<Rightarrow> db')"

fun route :: "int \<Rightarrow> request \<Rightarrow> (string \<rightharpoonup> dbRoom) \<Rightarrow> (string \<rightharpoonup> dbRoom)" where
  "route now (StartCall rid) db =
     (case db rid of
        None \<Rightarrow> db
      | Some d \<Rightarrow>
          (if status d \<noteq> Waiting then db
           else saved rid (d\<lparr>callStartTime := Some now, status := Active, updatedAt := now\<rparr>) db))"
| "route now (EndCall rid) db =
     (case db rid of
        None \<Rightarrow> db
      | Some d \<Rightarrow>
          (if status d \<noteq> Active then db
           else saved rid ((endCall now d)\<lparr>updatedAt := now\<rparr>) db))"
| "route now (SetStatus rid st) db =
     (case db rid of
        None \<Rightarrow> db
      | Some d \<Rightarrow> db(rid \<mapsto> d\<lparr>status := st, updatedAt := now\<rparr>))"
| "route now (EndRoom rid) db =
     (case db rid of
        None \<Rightarrow> db
      | Some d \<Rightarrow>
          (let d1 = d\<lparr>participants :=
                        map (\<lambda>p. if leftAt p = None then p\<lparr>leftAt := Some now\<rparr> else p)
                          (participants d)\<rparr>;
               d2 = (if status d1 = Active
                     then calculateDuration (d1\<lparr>callEndTime := Some now\<rparr>) else d1)
           in saved rid (d2\<lparr>status := Ended, updatedAt := now\<rparr>) db))"
| "route now (DeleteRoom rid) db = db(rid := None)"
| "route now (OtherWrite f) db = f db"

section \<open>Connections arriving and closing\<close>

text \<open>
  The query parameters of the handshake URL, as \<open>url.searchParams.get\<close> returns them
  (\<open>Null\<close> when absent); \<open>q_participantName\<close> is the name after \<open>decodeURIComponent\<close>.
\<close>

record query =
  q_roomId :: jsid
  q_deviceId :: jsid
  q_participantId :: jsid
  q_participantName :: jsid
  q_role :: jsid

definition freshConn :: conn where
  "freshConn =
     \<lparr>serviceType = NoService, readyState = OPEN, ws_roomId = [], ws_participantId = Undefined,
      ws_participantName = [], ws_role = [], leftHandled = False, ws_deviceId = Undefined\<rparr>"

definition onConnection :: "query \<Rightarrow> state \<Rightarrow> state" where
  "onConnection q s =
     (let ws = nextConn s
      in if truthy (q_roomId q)
         then
           (let rawName = strOr (q_participantName q) anonymous;
                pname = (if trim rawName = [] then anonymous else trim rawName);
                r = strOr (q_role q) ''user''
            in s\<lparr>conns := (conns s)(ws := freshConn\<lparr>serviceType := RoomService,
                                                     ws_roomId := idString (q_roomId q),
                                                     ws_participantId := q_participantId q,
                                                     ws_participantName := pname,
                                                     ws_role := r\<rparr>),
                 nextConn := Suc ws\<rparr>)
         else if truthy (q_deviceId q)
         then s\<lparr>conns := (conns s)(ws := freshConn\<lparr>serviceType := DeviceService,
                                                    ws_deviceId := q_deviceId q\<rparr>),
                nextConn := Suc ws,
                connectedDevices := (connectedDevices s)(q_deviceId q \<mapsto> ws)\<rparr>
         else s\<lparr>conns := (conns s)(ws := freshConn\<lparr>readyState := CLOSED\<rparr>),
                nextConn := Suc ws\<rparr>)"

text \<open>The \<open>close\<close> handler of a socket, when the store answers at once.\<close>

definition onClose :: "int \<Rightarrow> nat \<Rightarrow> state \<Rightarrow> state" where
  "onClose now ws s =
     (case serviceType (conns s ws) of
        RoomService \<Rightarrow> handleParticipantLeave now ws s
      | DeviceService \<Rightarrow>
          updateDeviceStatus (ws_deviceId (conns s ws)) ''offline''
            (s\<lparr>connectedDevices := (connectedDevices s)(ws_deviceId (conns s ws) := None)\<rparr>)
      | NoService \<Rightarrow> s)"

text \<open>The \<open>close\<close> handler up to the first \<open>await\<close> of the leave logic.\<close>

definition receiveClose :: "int \<Rightarrow> nat \<Rightarrow> state \<Rightarrow> state" where
  "receiveClose now ws s =
     (case serviceType (conns s ws) of
        RoomService \<Rightarrow>
          (case leaveStart ws s of
             (s1, None) \<Rightarrow> s1
           | (s1, Some (rid, pid, room)) \<Rightarrow> suspend (LeaveTask rid pid room) s1)
      | _ \<Rightarrow> onClose now ws s)"

text \<open>
  What the server reacts to. A message is handled on an open socket of the matching
  kind; a socket closes once, and its handler sees it closed. \<open>RoomMessage\<close> and \<open>Close\<close>
  are a message and a close whose handler is answered by the store at once; \<open>Arrives\<close>
  and \<open>Closes\<close> run the handler to its first \<open>await\<close>, and \<open>Resumes\<close> takes up the
  suspended handler of that number. \<open>Http\<close> is a request to one of the routes.
\<close>

datatype event =
    Connection query
  | RoomMessage nat roomMsg
  | DeviceMessage nat deviceMsg
  | Close nat
  | Arrives nat roomMsg
  | Closes nat
  | Resumes nat
  | Http request

definition setClosed :: "nat \<Rightarrow> state \<Rightarrow> state" where
  "setClosed ws s = s\<lparr>conns := (conns s)(ws := (conns s ws)\<lparr>readyState := CLOSED\<rparr>)\<rparr>"

fun step :: "(string \<Rightarrow> string option) \<Rightarrow> int \<Rightarrow> event \<Rightarrow> state \<Rightarrow> state" where
  "step aes now (Connection q) s = onConnection q s"
| "step aes now (RoomMessage ws m) s =
     (if ws < nextConn s \<and> isOpen s ws \<and> serviceType (conns s ws) = RoomService
      then handleRoomMessage aes now ws m s else s)"
| "step aes now (DeviceMessage ws m) s =
     (if ws < nextConn s \<and> isOpen s ws \<and> serviceType (conns s ws) = DeviceService
      then handleDeviceMessage ws m s else s)"
| "step aes now (Close ws) s =
     (if ws < nextConn s \<and> isOpen s ws then onClose now ws (setClosed ws s) else s)"
| "step aes now (Arrives ws m) s =
     (if ws < nextConn s \<and> isOpen s ws \<and> serviceType (conns s ws) = RoomService
      then receiveRoomMessage aes now ws m s else s)"
| "step aes now (Closes ws) s =
     (if ws < nextConn s \<and> isOpen s ws then receiveClose now ws (setClosed ws s) else s)"
| "step aes now (Resumes n) s =
     (case pending s n of
        None \<Rightarrow> s
      | Some t \<Rightarrow> resume aes now t (s\<lparr>pending := (pending s)(n := None)\<rparr>))"
| "step aes now (Http q) s = s\<lparr>roomDb := route now q (roomDb s)\<rparr>"

text \<open>A run: events with the clock reading at which each is handled.\<close>

fun run :: "(string \<Rightarrow> string option) \<Rightarrow> (int \<times> event) list \<Rightarrow> state \<Rightarrow> state" where
  "run aes [] s = s"
| "run aes (e # es) s = run aes es (step aes (fst e) (snd e) s)"

text \<open>The server after start: no socket, empty registries, whatever the store holds.\<close>

definition initState :: "(string \<rightharpoonup> dbRoom) \<Rightarrow> (jsid \<rightharpoonup> string) \<Rightarrow> state" where
  "initState rdb ddb =
     \<lparr>conns = (\<lambda>_. freshConn\<lparr>readyState := CLOSED\<rparr>), nextConn = 0, rooms = Map.empty,
      connectedDevices = Map.empty, roomDb = rdb, deviceDb = ddb, outbox = [],
      roomObj = (\<lambda>_. 0), lostRooms = (\<lambda>_. []), nextRoomObj = 0, pending = Map.empty,
      nextTask = 0\<rparr>"

section \<open>Notions used in the statements\<close>

text \<open>The number of sockets registered in a room.\<close>

definition occupants :: "state \<Rightarrow> string \<Rightarrow> nat" where
  "occupants s rid = (case rooms s rid of None \<Rightarrow> 0 | Some ps \<Rightarrow> length ps)"

text \<open>The entries of a room of the registry, none when the room is not there.\<close>

definition roomOf :: "state \<Rightarrow> string \<Rightarrow> (jsid \<times> nat) list" where
  "roomOf s rid = (case rooms s rid of None \<Rightarrow> [] | Some ps \<Rightarrow> ps)"

text \<open>A socket whose leave logic has run.\<close>

definition hasLeft :: "state \<Rightarrow> nat \<Rightarrow> bool" where
  "hasLeft s ws = (ws < nextConn s \<and> leftHandled (conns s ws))"


text \<open>The room id, participant id and role of a joiner pass the validators.\<close>

definition validJoiner :: "string \<Rightarrow> jsid \<Rightarrow> string \<Rightarrow> bool" where
  "validJoiner rid pid r = (rid \<noteq> [] \<and> truthy pid \<and> r \<in> set roles)"


text \<open>The state in which a joiner that passed the guard waits: the room object is there.\<close>

definition entered :: "string \<Rightarrow> state \<Rightarrow> state" where
  "entered rid s = (if rooms s rid = None then createRoom rid s else s)"



section \<open>Scenarios\<close>

text \<open>
  Concrete messages, handshakes and runs, used to evaluate the model. Sockets are
  numbered in the order they connect; CryptoJS is taken to fail on every input.
\<close>

definition noAes :: "string \<Rightarrow> string option" where
  "noAes c = None"

subsection \<open>Messages and handshakes\<close>

definition roomQuery :: "string \<Rightarrow> string \<Rightarrow> string \<Rightarrow> string \<Rightarrow> query" where
  "roomQuery rid pid pname r =
     \<lparr>q_roomId = Str rid, q_deviceId = Null, q_participantId = Str pid,
      q_participantName = Str pname, q_role = Str r\<rparr>"

definition deviceQuery :: "string \<Rightarrow> query" where
  "deviceQuery did =
     \<lparr>q_roomId = Null, q_deviceId = Str did, q_participantId = Null,
      q_participantName = Null, q_role = Null\<rparr>"

definition joinMsg :: roomMsg where
  "joinMsg =
     \<lparr>m_type = ''join-room'', m_roomId = Undefined, m_participantId = Undefined,
      m_participantName = Undefined, m_senderId = Undefined, m_senderName = Undefined,
      m_message = Undefined, m_targetParticipantId = Undefined, m_mediaType = None,
      m_enabled = None, m_rest = []\<rparr>"

definition leaveMsg :: roomMsg where
  "leaveMsg = joinMsg\<lparr>m_type := ''leave-room''\<rparr>"

definition chatMsg :: "string \<Rightarrow> roomMsg" where
  "chatMsg msg = joinMsg\<lparr>m_type := ''chat-message'', m_message := Str msg\<rparr>"

definition adminMsg :: "string \<Rightarrow> roomMsg" where
  "adminMsg target =
     joinMsg\<lparr>m_type := ''admin-control-media'', m_targetParticipantId := Str target,
             m_mediaType := Some (JStr ''audio''), m_enabled := Some (JBool False)\<rparr>"

definition registerMsg :: "string \<Rightarrow> deviceMsg" where
  "registerMsg did =
     \<lparr>d_type = ''register'', d_targetDeviceId = Undefined, d_deviceId = Str did,
      d_deviceName = None, d_rest = []\<rparr>"

definition callMsg :: "string \<Rightarrow> string \<Rightarrow> deviceMsg" where
  "callMsg target dname =
     \<lparr>d_type = ''call-initiate'', d_targetDeviceId = Str target, d_deviceId = Undefined,
      d_deviceName = Some (JStr dname), d_rest = [(''callId'', JStr ''c1'')]\<rparr>"

subsection \<open>Rooms\<close>

text \<open>Ann has connected to room R1 and has not joined.\<close>

definition annConnected :: state where
  "annConnected =
     run noAes [(1000, Connection (roomQuery ''R1'' ''A'' ''Ann'' ''admin''))]
       (initState Map.empty Map.empty)"

text \<open>Ann is seated alone in room R1.\<close>

definition oneSeated :: state where
  "oneSeated =
     run noAes
       [(1000, Connection (roomQuery ''R1'' ''A'' ''Ann'' ''admin'')),
        (1001, RoomMessage 0 joinMsg)]
       (initState Map.empty Map.empty)"



text \<open>Ann and Bob are seated in room R1; Cy has connected to it.\<close>

definition twoSeatedEvents :: "(int \<times> event) list" where
  "twoSeatedEvents =
     [(1000, Connection (roomQuery ''R1'' ''A'' ''Ann'' ''admin'')),
      (1001, RoomMessage 0 joinMsg),
      (2000, Connection (roomQuery ''R1'' ''B'' ''Bob'' ''user'')),
      (2001, RoomMessage 1 joinMsg),
      (3000, Connection (roomQuery ''R1'' ''C'' ''Cy'' ''user''))]"

definition twoSeated :: state where
  "twoSeated = run noAes twoSeatedEvents (initState Map.empty Map.empty)"





text \<open>Ann's socket carries id A; her \<open>join-room\<close> names participant id Z.\<close>

definition aliasSeated :: state where
  "aliasSeated =
     run noAes
       [(1000, Connection (roomQuery ''R1'' ''A'' ''Ann'' ''admin'')),
        (1001, RoomMessage 0 (joinMsg\<lparr>m_participantId := Str ''Z''\<rparr>))]
       (initState Map.empty Map.empty)"


text \<open>
  Ann is seated alone; Bob and Cy have connected. Their \<open>join-room\<close> messages arrive one
  after the other, each handler finding one entry and waiting for the store.
\<close>

definition bothWaiting :: state where
  "bothWaiting =
     run noAes
       [(2000, Connection (roomQuery ''R1'' ''B'' ''Bob'' ''user'')),
        (3000, Connection (roomQuery ''R1'' ''C'' ''Cy'' ''user'')),
        (3001, Arrives 1 joinMsg),
        (3002, Arrives 2 joinMsg)]
       oneSeated"

text \<open>Then the store answers Bob's handler, and after it Cy's.\<close>

definition bothAnswered :: state where
  "bothAnswered = run noAes [(3003, Resumes 0), (3004, Resumes 1)] bothWaiting"

subsection \<open>Devices\<close>

text \<open>Devices D1 and D2 are connected and their documents exist.\<close>

definition twoDevices :: state where
  "twoDevices =
     run noAes
       [(1000, Connection (deviceQuery ''D1'')),
        (2000, Connection (deviceQuery ''D2''))]
       (initState Map.empty [Str ''D1'' \<mapsto> ''online'', Str ''D2'' \<mapsto> ''online''])"

section \<open>Facts about the model\<close>

lemmas scenario_defs =
  initState_def onConnection_def handleRoomMessage_def handleJoinRoom_def joinStart_def
  joinLoaded_def seatJoiner_def createRoom_def roomMembers_def setRoomMembers_def
  deleteRoom_def handleParticipantLeave_def leaveStart_def leaveLoaded_def
  loadRoom_def newRoom_def freshSession_def addParticipant_def save_def validRoom_def
  validParticipant_def validChat_def roles_def
  startCall_def send_def isOpen_def chatHistory_def freshConn_def joinMsg_def roomQuery_def
  deviceQuery_def anonymous_def nameOrAnonymous_def orElse_def
  occupants_def setClosed_def onClose_def recordLeave_def removeParticipant_def endCall_def
  calculateDuration_def sendAll_def mapDelete_def saveChatMessage_def addChatMessage_def
  broadcastToRoom_def twoSeatedEvents_def Let_def

lemma trim_examples:
  "trim '' Ward 3 '' = ''Ward 3''" "trim ''Ward 3'' = ''Ward 3''" "trim ''Ann'' = ''Ann''"
  "trim ''Bob'' = ''Bob''" "trim ''Cy'' = ''Cy''" "trim ''Gus'' = ''Gus''"
  by (simp_all add: trim_def dropLeading.simps whiteSpace_def)

text \<open>A no-break space in front, a line separator and a blank behind.\<close>

lemma trim_unicode:
  "trim ([CHR 0xC2, CHR 0xA0] @ ''Ward 3'' @ [CHR 0xE2, CHR 0x80, CHR 0xA8, CHR 0x20])
     = ''Ward 3''"
  by (simp add: trim_def dropLeading.simps whiteSpace_def)

subsection \<open>Sockets under each handler\<close>

lemma conns_send [simp]: "conns (send w m s) = conns s"
  by (simp add: send_def)

lemma nextConn_send [simp]: "nextConn (send w m s) = nextConn s"
  by (simp add: send_def)

lemma conns_sendAll [simp]: "conns (sendAll m ps s) = conns s"
  unfolding sendAll_def by (induction ps arbitrary: s) auto

lemma nextConn_sendAll [simp]: "nextConn (sendAll m ps s) = nextConn s"
  unfolding sendAll_def by (induction ps arbitrary: s) auto

lemma isOpen_send [simp]: "isOpen (send w m s) w' = isOpen s w'"
  by (simp add: isOpen_def)

lemma conns_suspend [simp]: "conns (suspend t s) = conns s"
  by (simp add: suspend_def)

lemma nextConn_suspend [simp]: "nextConn (suspend t s) = nextConn s"
  by (simp add: suspend_def)

lemma conns_createRoom [simp]: "conns (createRoom rid s) = conns s"
  by (simp add: createRoom_def)

lemma nextConn_createRoom [simp]: "nextConn (createRoom rid s) = nextConn s"
  by (simp add: createRoom_def)

lemma conns_setRoomMembers [simp]: "conns (setRoomMembers rid room ps s) = conns s"
  by (simp add: setRoomMembers_def)

lemma nextConn_setRoomMembers [simp]: "nextConn (setRoomMembers rid room ps s) = nextConn s"
  by (simp add: setRoomMembers_def)

lemma conns_deleteRoom [simp]: "conns (deleteRoom rid s) = conns s"
  by (simp add: deleteRoom_def split: option.splits)

lemma nextConn_deleteRoom [simp]: "nextConn (deleteRoom rid s) = nextConn s"
  by (simp add: deleteRoom_def split: option.splits)

lemma broadcast_fold_conns:
  "conns (foldl (\<lambda>st e. if (inc \<or> fst e \<noteq> sender) \<and> isOpen st (snd e)
                          then send (snd e) m st else st) s ps) = conns s \<and>
   nextConn (foldl (\<lambda>st e. if (inc \<or> fst e \<noteq> sender) \<and> isOpen st (snd e)
                          then send (snd e) m st else st) s ps) = nextConn s"
  by (induction ps arbitrary: s) auto

lemma conns_broadcastToRoom [simp]:
  "conns (broadcastToRoom rid sender m inc s) = conns s"
  by (simp add: broadcastToRoom_def broadcast_fold_conns split: option.split)

lemma nextConn_broadcastToRoom [simp]:
  "nextConn (broadcastToRoom rid sender m inc s) = nextConn s"
  by (simp add: broadcastToRoom_def broadcast_fold_conns split: option.split)

lemma conns_joinStart [simp]: "conns (fst (joinStart ws rid s)) = conns s"
  by (simp add: joinStart_def Let_def)

lemma nextConn_joinStart [simp]: "nextConn (fst (joinStart ws rid s)) = nextConn s"
  by (simp add: joinStart_def Let_def)

lemma conns_seatJoiner [simp]:
  "conns (seatJoiner aes now ws rid pid pname r room d s) = conns s"
  by (simp add: seatJoiner_def Let_def split: list.splits option.splits prod.splits)

lemma nextConn_seatJoiner [simp]:
  "nextConn (seatJoiner aes now ws rid pid pname r room d s) = nextConn s"
  by (simp add: seatJoiner_def Let_def split: list.splits option.splits prod.splits)

lemma conns_joinLoaded [simp]:
  "conns (joinLoaded aes now ws rid pid pname r room s) = conns s"
  by (simp add: joinLoaded_def split: option.splits prod.splits)

lemma nextConn_joinLoaded [simp]:
  "nextConn (joinLoaded aes now ws rid pid pname r room s) = nextConn s"
  by (simp add: joinLoaded_def split: option.splits prod.splits)

lemma conns_join [simp]: "conns (handleJoinRoom aes now ws rid pid pname r s) = conns s"
proof (cases "joinStart ws rid s")
  case (Pair s1 t)
  then have "conns s1 = conns s"
    using conns_joinStart[of ws rid s] by simp
  with Pair show ?thesis
    by (simp add: handleJoinRoom_def split: option.splits)
qed

lemma nextConn_join [simp]:
  "nextConn (handleJoinRoom aes now ws rid pid pname r s) = nextConn s"
proof (cases "joinStart ws rid s")
  case (Pair s1 t)
  then have "nextConn s1 = nextConn s"
    using nextConn_joinStart[of ws rid s] by simp
  with Pair show ?thesis
    by (simp add: handleJoinRoom_def split: option.splits)
qed

lemma conns_leaveStart:
  "conns (fst (leaveStart ws s)) =
   (if leftHandled (conns s ws) then conns s
    else (conns s)(ws := (conns s ws)\<lparr>leftHandled := True\<rparr>))"
  by (simp add: leaveStart_def Let_def split: option.splits)

lemma nextConn_leaveStart [simp]: "nextConn (fst (leaveStart ws s)) = nextConn s"
  by (simp add: leaveStart_def Let_def split: option.splits)

lemma conns_leaveLoaded [simp]: "conns (leaveLoaded now rid pid room s) = conns s"
  by (simp add: leaveLoaded_def Let_def split: option.splits)

lemma nextConn_leaveLoaded [simp]: "nextConn (leaveLoaded now rid pid room s) = nextConn s"
  by (simp add: leaveLoaded_def Let_def split: option.splits)

lemma conns_leave:
  "conns (handleParticipantLeave now ws s) =
   (if leftHandled (conns s ws) then conns s
    else (conns s)(ws := (conns s ws)\<lparr>leftHandled := True\<rparr>))"
proof (cases "leaveStart ws s")
  case (Pair s1 t)
  then have "conns s1 = (if leftHandled (conns s ws) then conns s
    else (conns s)(ws := (conns s ws)\<lparr>leftHandled := True\<rparr>))"
    using conns_leaveStart[of ws s] by simp
  with Pair show ?thesis
    by (simp add: handleParticipantLeave_def split: option.splits)
qed

lemma nextConn_leave [simp]: "nextConn (handleParticipantLeave now ws s) = nextConn s"
proof (cases "leaveStart ws s")
  case (Pair s1 t)
  then have "nextConn s1 = nextConn s"
    using nextConn_leaveStart[of ws s] by simp
  with Pair show ?thesis
    by (simp add: handleParticipantLeave_def split: option.splits)
qed

lemma leave_noop:
  assumes "leftHandled (conns s ws)"
  shows "handleParticipantLeave now ws s = s"
  using assms by (simp add: handleParticipantLeave_def leaveStart_def)

lemma leave_marks: "leftHandled (conns (handleParticipantLeave now ws s) ws)"
  by (simp add: conns_leave)

lemma conns_saveChat [simp]: "conns (saveChatMessage now rid sid sname msg s) = conns s"
  by (simp add: saveChatMessage_def split: option.splits)

lemma nextConn_saveChat [simp]:
  "nextConn (saveChatMessage now rid sid sname msg s) = nextConn s"
  by (simp add: saveChatMessage_def split: option.splits)

lemma conns_admin [simp]: "conns (handleAdminMediaControl ws m s) = conns s"
  by (simp add: handleAdminMediaControl_def split: option.splits)

lemma nextConn_admin [simp]: "nextConn (handleAdminMediaControl ws m s) = nextConn s"
  by (simp add: handleAdminMediaControl_def split: option.splits)

lemma conns_updateDeviceStatus [simp]: "conns (updateDeviceStatus did st s) = conns s"
  by (simp add: updateDeviceStatus_def split: option.splits)

lemma nextConn_updateDeviceStatus [simp]:
  "nextConn (updateDeviceStatus did st s) = nextConn s"
  by (simp add: updateDeviceStatus_def split: option.splits)

lemma conns_resume [simp]: "conns (resume aes now t s) = conns s"
  by (cases t) simp_all

lemma nextConn_resume [simp]: "nextConn (resume aes now t s) = nextConn s"
  by (cases t) simp_all

subsection \<open>A socket that has left stays so\<close>

lemma hasLeft_leave:
  assumes "hasLeft s ws"
  shows "hasLeft (handleParticipantLeave now ws' s) ws"
  using assms by (auto simp: hasLeft_def conns_leave)

lemma hasLeft_leaveStart:
  assumes "hasLeft s ws"
  shows "hasLeft (fst (leaveStart ws' s)) ws"
  using assms by (auto simp: hasLeft_def conns_leaveStart)

lemma hasLeft_cong:
  assumes "hasLeft s ws" and "conns s' = conns s" and "nextConn s' = nextConn s"
  shows "hasLeft s' ws"
  using assms by (simp add: hasLeft_def)

lemma hasLeft_roomMessage:
  assumes "hasLeft s ws"
  shows "hasLeft (handleRoomMessage aes now ws' m s) ws"
proof -
  have "hasLeft (handleParticipantLeave now ws' s) ws"
    using assms by (rule hasLeft_leave)
  then show ?thesis
    using assms by (simp add: handleRoomMessage_def Let_def) (simp add: hasLeft_def)
qed

lemma hasLeft_receive:
  assumes "hasLeft s ws"
  shows "hasLeft (receiveRoomMessage aes now ws' m s) ws"
proof -
  have j: "hasLeft (case joinStart ws' rid s of
                      (s1, None) \<Rightarrow> s1
                    | (s1, Some room) \<Rightarrow> suspend (JoinTask ws' rid pid pname r room) s1) ws"
    for rid pid pname r
  proof (cases "joinStart ws' rid s")
    case (Pair s1 t)
    then have "conns s1 = conns s" "nextConn s1 = nextConn s"
      using conns_joinStart[of ws' rid s] nextConn_joinStart[of ws' rid s] by simp_all
    with Pair assms show ?thesis
      by (simp add: hasLeft_def split: option.splits)
  qed
  have l: "hasLeft (case leaveStart ws' s of
                      (s1, None) \<Rightarrow> s1
                    | (s1, Some (rid', pid', room)) \<Rightarrow> suspend (LeaveTask rid' pid' room) s1) ws"
  proof (cases "leaveStart ws' s")
    case (Pair s1 t)
    then have "hasLeft s1 ws"
      using hasLeft_leaveStart[OF assms, of ws'] by simp
    with Pair show ?thesis
      by (simp add: hasLeft_def split: option.splits prod.splits)
  qed
  have c: "hasLeft (suspend t s) ws" for t
    using assms by (simp add: hasLeft_def)
  have r: "hasLeft (handleRoomMessage aes now ws' m s) ws"
    using assms by (rule hasLeft_roomMessage)
  show ?thesis
    using j l c r by (simp add: receiveRoomMessage_def Let_def)
qed

lemma hasLeft_deviceMessage:
  assumes "hasLeft s ws"
  shows "hasLeft (handleDeviceMessage ws' m s) ws"
  using assms
  by (auto simp: handleDeviceMessage_def hasLeft_def Let_def split: option.splits)

lemma hasLeft_onConnection:
  assumes "hasLeft s ws"
  shows "hasLeft (onConnection q s) ws"
  using assms by (auto simp: onConnection_def hasLeft_def Let_def)

lemma hasLeft_setClosed:
  assumes "hasLeft s ws"
  shows "hasLeft (setClosed ws' s) ws"
  using assms by (auto simp: setClosed_def hasLeft_def)

lemma hasLeft_onClose:
  assumes "hasLeft s ws"
  shows "hasLeft (onClose now ws' s) ws"
proof (cases "serviceType (conns s ws')")
  case RoomService
  then show ?thesis
    using assms by (simp add: onClose_def hasLeft_leave)
next
  case DeviceService
  then show ?thesis
    using assms by (simp add: onClose_def hasLeft_def)
next
  case NoService
  then show ?thesis
    using assms by (simp add: onClose_def)
qed

lemma hasLeft_receiveClose:
  assumes "hasLeft s ws"
  shows "hasLeft (receiveClose now ws' s) ws"
proof (cases "serviceType (conns s ws')")
  case RoomService
  show ?thesis
  proof (cases "leaveStart ws' s")
    case (Pair s1 t)
    then have "hasLeft s1 ws"
      using hasLeft_leaveStart[OF assms, of ws'] by simp
    with Pair RoomService show ?thesis
      by (simp add: receiveClose_def hasLeft_def split: option.splits prod.splits)
  qed
next
  case DeviceService
  then show ?thesis
    using hasLeft_onClose[OF assms, of now ws'] by (simp add: receiveClose_def)
next
  case NoService
  then show ?thesis
    using hasLeft_onClose[OF assms, of now ws'] by (simp add: receiveClose_def)
qed

lemma hasLeft_step:
  assumes "hasLeft s ws"
  shows "hasLeft (step aes now e s) ws"
proof (cases e)
  case (Resumes n)
  then show ?thesis
    using assms by (simp add: hasLeft_def split: option.splits)
next
  case (Http q)
  then show ?thesis
    using assms by (simp add: hasLeft_def)
qed (use assms in \<open>simp_all add: hasLeft_onConnection hasLeft_roomMessage hasLeft_deviceMessage
                    hasLeft_onClose hasLeft_setClosed hasLeft_receive hasLeft_receiveClose\<close>)

lemma hasLeft_run:
  assumes "hasLeft s ws"
  shows "hasLeft (run aes evs s) ws"
  using assms by (induction evs arbitrary: s) (simp_all add: hasLeft_step)

subsection \<open>The registry under the join handler\<close>

lemma occupants_roomOf: "occupants s rid = length (roomOf s rid)"
  by (simp add: occupants_def roomOf_def split: option.splits)

lemma joinStart_full:
  assumes "2 \<le> occupants s rid"
  shows "joinStart ws rid s = (send ws (RoomStatusFull rid) s, None)"
  using assms
  by (auto simp: joinStart_def occupants_def roomMembers_def Let_def split: option.splits)

lemma join_full:
  assumes "2 \<le> occupants s rid"
  shows "handleJoinRoom aes now ws rid pid pname r s = send ws (RoomStatusFull rid) s"
  by (simp add: handleJoinRoom_def joinStart_full[OF assms])

lemma entered_fields [simp]:
  "rooms (entered rid s) = (rooms s)(rid \<mapsto> roomOf s rid)"
  "roomDb (entered rid s) = roomDb s" "outbox (entered rid s) = outbox s"
  "conns (entered rid s) = conns s" "nextConn (entered rid s) = nextConn s"
  "pending (entered rid s) = pending s" "nextTask (entered rid s) = nextTask s"
  by (auto simp: entered_def createRoom_def roomOf_def split: option.splits)

lemma entered_members [simp]:
  "roomMembers (entered rid s) rid (roomObj (entered rid s) rid) = roomOf s rid"
  by (auto simp: entered_def createRoom_def roomOf_def roomMembers_def split: option.splits)

lemma joinStart_passes:
  assumes "occupants s rid < 2"
  shows "joinStart ws rid s = (entered rid s, Some (roomObj (entered rid s) rid))"
proof -
  have "\<not> 2 \<le> length (roomMembers (entered rid s) rid (roomObj (entered rid s) rid))"
    using assms by (simp add: occupants_roomOf)
  then show ?thesis
    unfolding joinStart_def Let_def entered_def[symmetric] by simp
qed

lemma join_passes:
  assumes "occupants s rid < 2"
  shows "handleJoinRoom aes now ws rid pid pname r s =
         joinLoaded aes now ws rid pid pname r (roomObj (entered rid s) rid) (entered rid s)"
  by (simp add: handleJoinRoom_def joinStart_passes[OF assms])

section \<open>Room capacity\<close>

lemma oneSeated_facts:
  "rooms oneSeated ''R1'' = Some [(Str ''A'', 0)]"
  "roomDb oneSeated ''R1'' = Some (newRoom 1001 ''R1'' (Str ''A'') ''Ann'' ''admin'')"
  "ws_participantName (conns oneSeated 0) = ''Ann''"
  "ws_role (conns oneSeated 0) = ''admin''"
  "ws_roomId (conns oneSeated 0) = ''R1''"
  "ws_participantId (conns oneSeated 0) = Str ''A''"
  "isOpen oneSeated 0" "nextConn oneSeated = 1"
  "serviceType (conns oneSeated 0) = RoomService"
  "outbox oneSeated = [(0, RoomStatusWaiting ''R1'' ''admin''), (0, ChatHistory ''R1'' [] 0)]"
  by (simp_all add: oneSeated_def scenario_defs trim_examples)

lemma bothWaiting_facts:
  "rooms bothWaiting ''R1'' = Some [(Str ''A'', 0)]"
  "pending bothWaiting 0 = Some (JoinTask 1 ''R1'' (Str ''B'') ''Bob'' ''user'' 0)"
  "pending bothWaiting (Suc 0) = Some (JoinTask 2 ''R1'' (Str ''C'') ''Cy'' ''user'' 0)"
  "outbox bothWaiting = [(0, RoomStatusWaiting ''R1'' ''admin''), (0, ChatHistory ''R1'' [] 0)]"
  by (simp_all add: bothWaiting_def oneSeated_def scenario_defs receiveRoomMessage_def
        suspend_def trim_examples)

lemma bothAnswered_facts:
  "rooms bothAnswered ''R1'' = Some [(Str ''A'', 0), (Str ''B'', 1), (Str ''C'', 2)]"
  "outbox bothAnswered =
     [(0, RoomStatusWaiting ''R1'' ''admin''), (0, ChatHistory ''R1'' [] 0),
      (1, RoomStatusReady ''R1'' ''user'' (Str ''A'') ''Ann'' ''admin''),
      (1, ChatHistory ''R1'' [] 0),
      (0, ParticipantJoined (Str ''B'') ''Bob'' ''user''),
      (2, RoomStatusReady ''R1'' ''user'' (Str ''A'') ''Ann'' ''admin''),
      (2, ChatHistory ''R1'' [] 0),
      (0, ParticipantJoined (Str ''C'') ''Cy'' ''user'')]"
  by (simp_all add: bothAnswered_def bothWaiting_def oneSeated_def scenario_defs
        receiveRoomMessage_def suspend_def trim_examples)

text \<open>
  C1. The capacity guard of \<open>handleJoinRoom\<close> reads the size of the room before the
  handler waits for the store, and the joiner is entered after the store has answered.
  Ann is seated alone in room R1. The \<open>join-room\<close> of Bob and then that of Cy arrive while
  the room holds one entry: both handlers pass the guard and wait. When the store has
  answered both, the room holds three entries; Bob and Cy were each answered \<open>ready\<close>
  and nobody was answered \<open>full\<close>.
\<close>

theorem third_joiner_seated:
  "occupants bothWaiting ''R1'' = 1 \<and>
   pending bothWaiting 0 = Some (JoinTask 1 ''R1'' (Str ''B'') ''Bob'' ''user'' 0) \<and>
   pending bothWaiting 1 = Some (JoinTask 2 ''R1'' (Str ''C'') ''Cy'' ''user'' 0) \<and>
   rooms bothAnswered ''R1'' = Some [(Str ''A'', 0), (Str ''B'', 1), (Str ''C'', 2)] \<and>
   occupants bothAnswered ''R1'' = 3 \<and>
   outbox bothAnswered =
     outbox bothWaiting @
       [(1, RoomStatusReady ''R1'' ''user'' (Str ''A'') ''Ann'' ''admin''),
        (1, ChatHistory ''R1'' [] 0),
        (0, ParticipantJoined (Str ''B'') ''Bob'' ''user''),
        (2, RoomStatusReady ''R1'' ''user'' (Str ''A'') ''Ann'' ''admin''),
        (2, ChatHistory ''R1'' [] 0),
        (0, ParticipantJoined (Str ''C'') ''Cy'' ''user'')]"
  by (simp add: occupants_def bothWaiting_facts bothAnswered_facts)

lemma twoSeated_rooms: "rooms twoSeated ''R1'' = Some [(Str ''A'', 0), (Str ''B'', 1)]"
  by (simp add: twoSeated_def scenario_defs trim_examples)

lemma twoSeated_conns:
  "ws_role (conns twoSeated 0) = ''admin''"
  "ws_role (conns twoSeated (Suc 0)) = ''user''"
  "ws_roomId (conns twoSeated 0) = ''R1''"
  "ws_roomId (conns twoSeated (Suc 0)) = ''R1''"
  "ws_participantId (conns twoSeated 0) = Str ''A''"
  "ws_participantId (conns twoSeated (Suc 0)) = Str ''B''"
  "isOpen twoSeated 0" "isOpen twoSeated (Suc 0)"
  by (simp_all add: twoSeated_def scenario_defs trim_examples)

section \<open>Admin media control\<close>

text \<open>
  C4. An \<open>admin-control-media\<close> message from a socket whose role is not \<open>admin\<close> adds
  exactly one \<open>error\<close> reply to the sender and nothing else. From an admin socket it is
  sent to the socket registered under the target id in the sender's room, if that socket
  is open, with \<open>fromAdmin\<close> the sender's participant id, and to nobody else. When no
  open socket is registered under the target id, the state is unchanged: nothing is sent,
  not even an error to the sender.
\<close>

theorem admin_media_control:
  assumes "m_type m = ''admin-control-media''"
  shows
    "(ws_role (conns s ws) \<noteq> ''admin'' \<longrightarrow>
        handleRoomMessage aes now ws m s =
          s\<lparr>outbox := outbox s @
               [(ws, ErrorMsg ''Only admins can control participant media'')]\<rparr>) \<and>
     (ws_role (conns s ws) = ''admin'' \<longrightarrow>
        rooms s (ws_roomId (conns s ws)) = Some ps \<longrightarrow>
        mapGet ps (m_targetParticipantId m) = Some t \<longrightarrow> isOpen s t \<longrightarrow>
        handleRoomMessage aes now ws m s =
          s\<lparr>outbox := outbox s @
               [(t, AdminMediaControl (m_mediaType m) (m_enabled m)
                      (ws_participantId (conns s ws)))]\<rparr>) \<and>
     (ws_role (conns s ws) = ''admin'' \<longrightarrow>
        \<not> (\<exists>qs u. rooms s (ws_roomId (conns s ws)) = Some qs \<and>
                   mapGet qs (m_targetParticipantId m) = Some u \<and> isOpen s u) \<longrightarrow>
        handleRoomMessage aes now ws m s = s)"
  using assms
  by (auto simp: handleRoomMessage_def handleAdminMediaControl_def send_def Let_def
           split: option.splits)

theorem admin_media_control_witness:
  "handleRoomMessage noAes 4000 1 (adminMsg ''A'') twoSeated =
     twoSeated\<lparr>outbox := outbox twoSeated @
                  [(1, ErrorMsg ''Only admins can control participant media'')]\<rparr> \<and>
   handleRoomMessage noAes 4000 0 (adminMsg ''B'') twoSeated =
     twoSeated\<lparr>outbox := outbox twoSeated @
                  [(1, AdminMediaControl (Some (JStr ''audio'')) (Some (JBool False))
                         (Str ''A''))]\<rparr> \<and>
   handleRoomMessage noAes 4000 0 (adminMsg ''Z'') twoSeated = twoSeated"
proof -
  have ty: "m_type (adminMsg x) = ''admin-control-media''" for x
    by (simp add: adminMsg_def)
  have tg: "m_targetParticipantId (adminMsg x) = Str x" for x
    by (simp add: adminMsg_def)
  have mt: "m_mediaType (adminMsg x) = Some (JStr ''audio'')"
           "m_enabled (adminMsg x) = Some (JBool False)" for x
    by (simp_all add: adminMsg_def)
  have gB: "mapGet [(Str ''A'', 0::nat), (Str ''B'', 1)] (Str ''B'') = Some 1"
    by (simp add: mapGet_def)
  have gZ: "\<not> (\<exists>qs u. rooms twoSeated (ws_roomId (conns twoSeated 0)) = Some qs \<and>
                mapGet qs (m_targetParticipantId (adminMsg ''Z'')) = Some u \<and>
                isOpen twoSeated u)"
    by (simp add: twoSeated_conns twoSeated_rooms tg mapGet_def)
  have a: "handleRoomMessage noAes 4000 1 (adminMsg ''A'') twoSeated =
     twoSeated\<lparr>outbox := outbox twoSeated @
                  [(1, ErrorMsg ''Only admins can control participant media'')]\<rparr>"
    using admin_media_control[where m = "adminMsg ''A''" and s = twoSeated and ws = 1, OF ty]
    by (simp add: twoSeated_conns)
  have b: "handleRoomMessage noAes 4000 0 (adminMsg ''B'') twoSeated =
     twoSeated\<lparr>outbox := outbox twoSeated @
                  [(1, AdminMediaControl (Some (JStr ''audio'')) (Some (JBool False))
                         (Str ''A''))]\<rparr>"
    using admin_media_control[where m = "adminMsg ''B''" and s = twoSeated and ws = 0
                                and ps = "[(Str ''A'', 0), (Str ''B'', 1)]" and t = 1, OF ty]
          gB
    by (simp add: twoSeated_conns twoSeated_rooms tg mt)
  have c: "handleRoomMessage noAes 4000 0 (adminMsg ''Z'') twoSeated = twoSeated"
    using admin_media_control[where m = "adminMsg ''Z''" and s = twoSeated and ws = 0, OF ty]
          gZ
    by (simp add: twoSeated_conns)
  from a b c show ?thesis
    by simp
qed

section \<open>The leave protocol runs once\<close>

text \<open>The first leave, by message or by close, on an open room socket.\<close>

lemma first_leave_hasLeft:
  assumes "ws < nextConn s" and "isOpen s ws" and "serviceType (conns s ws) = RoomService"
    and "m_type m1 = ''leave-room''" and "l1 = RoomMessage ws m1 \<or> l1 = Close ws"
  shows "hasLeft (step aes t1 l1 s) ws"
proof -
  have a: "hasLeft (handleParticipantLeave t1 ws s) ws"
    using assms(1) by (simp add: hasLeft_def conns_leave)
  have b: "hasLeft (handleParticipantLeave t1 ws (setClosed ws s)) ws"
    using assms(1) by (simp add: hasLeft_def conns_leave setClosed_def)
  from assms(5) show ?thesis
  proof
    assume "l1 = RoomMessage ws m1"
    then show ?thesis
      using assms a by (simp add: handleRoomMessage_def Let_def)
  next
    assume "l1 = Close ws"
    then show ?thesis
      using assms b by (simp add: onClose_def setClosed_def)
  qed
qed

lemma later_leave_unobservable:
  assumes "hasLeft s ws" and "m_type m2 = ''leave-room''"
    and "l2 = RoomMessage ws m2 \<or> l2 = Close ws"
  shows "rooms (step aes t2 l2 s) = rooms s \<and> roomDb (step aes t2 l2 s) = roomDb s \<and>
         outbox (step aes t2 l2 s) = outbox s"
proof -
  have lh: "leftHandled (conns s ws)"
    using assms(1) by (simp add: hasLeft_def)
  from assms(3) show ?thesis
  proof
    assume "l2 = RoomMessage ws m2"
    then show ?thesis
      using assms(2) lh by (simp add: handleRoomMessage_def Let_def leave_noop)
  next
    assume l2: "l2 = Close ws"
    have "leftHandled (conns (setClosed ws s) ws)"
      using lh by (simp add: setClosed_def)
    then have "handleParticipantLeave t2 ws (setClosed ws s) = setClosed ws s"
      by (rule leave_noop)
    then show ?thesis
      using l2
      by (cases "serviceType (conns s ws)")
         (simp_all add: onClose_def, simp_all add: setClosed_def updateDeviceStatus_def
            split: option.splits)
  qed
qed

text \<open>
  C6. Once the leave logic has run for a socket, running it again changes nothing,
  whatever the server handled in between (messages, closes, suspended handlers going on,
  HTTP requests): the second execution returns the state it is given. For an open room socket, the first and the second trigger being a \<open>leave-room\<close>
  message or the socket's close in any combination, the second trigger leaves the
  transient registry, the persisted rooms and the messages sent as the first left them.
\<close>

theorem leave_idempotent:
  assumes "ws < nextConn s"
  shows
    "handleParticipantLeave t2 ws (run aes evs (handleParticipantLeave t1 ws s)) =
       run aes evs (handleParticipantLeave t1 ws s) \<and>
     (isOpen s ws \<longrightarrow> serviceType (conns s ws) = RoomService \<longrightarrow>
      m_type m1 = ''leave-room'' \<longrightarrow> m_type m2 = ''leave-room'' \<longrightarrow>
      (l1 = RoomMessage ws m1 \<or> l1 = Close ws) \<longrightarrow>
      (l2 = RoomMessage ws m2 \<or> l2 = Close ws) \<longrightarrow>
      rooms (step aes t2 l2 (run aes evs (step aes t1 l1 s))) =
        rooms (run aes evs (step aes t1 l1 s)) \<and>
      roomDb (step aes t2 l2 (run aes evs (step aes t1 l1 s))) =
        roomDb (run aes evs (step aes t1 l1 s)) \<and>
      outbox (step aes t2 l2 (run aes evs (step aes t1 l1 s))) =
        outbox (run aes evs (step aes t1 l1 s)))"
proof
  have "hasLeft (handleParticipantLeave t1 ws s) ws"
    using assms by (simp add: hasLeft_def leave_marks)
  then have "hasLeft (run aes evs (handleParticipantLeave t1 ws s)) ws"
    by (rule hasLeft_run)
  then have "leftHandled (conns (run aes evs (handleParticipantLeave t1 ws s)) ws)"
    by (simp add: hasLeft_def)
  then show "handleParticipantLeave t2 ws (run aes evs (handleParticipantLeave t1 ws s)) =
       run aes evs (handleParticipantLeave t1 ws s)"
    by (rule leave_noop)
next
  show "isOpen s ws \<longrightarrow> serviceType (conns s ws) = RoomService \<longrightarrow>
      m_type m1 = ''leave-room'' \<longrightarrow> m_type m2 = ''leave-room'' \<longrightarrow>
      (l1 = RoomMessage ws m1 \<or> l1 = Close ws) \<longrightarrow>
      (l2 = RoomMessage ws m2 \<or> l2 = Close ws) \<longrightarrow>
      rooms (step aes t2 l2 (run aes evs (step aes t1 l1 s))) =
        rooms (run aes evs (step aes t1 l1 s)) \<and>
      roomDb (step aes t2 l2 (run aes evs (step aes t1 l1 s))) =
        roomDb (run aes evs (step aes t1 l1 s)) \<and>
      outbox (step aes t2 l2 (run aes evs (step aes t1 l1 s))) =
        outbox (run aes evs (step aes t1 l1 s))"
  proof (intro impI)
    assume h: "isOpen s ws" "serviceType (conns s ws) = RoomService"
      "m_type m1 = ''leave-room''" "m_type m2 = ''leave-room''"
      "l1 = RoomMessage ws m1 \<or> l1 = Close ws" "l2 = RoomMessage ws m2 \<or> l2 = Close ws"
    have "hasLeft (step aes t1 l1 s) ws"
      using assms h(1,2,3,5) by (rule first_leave_hasLeft)
    then have "hasLeft (run aes evs (step aes t1 l1 s)) ws"
      by (rule hasLeft_run)
    then show "rooms (step aes t2 l2 (run aes evs (step aes t1 l1 s))) =
        rooms (run aes evs (step aes t1 l1 s)) \<and>
      roomDb (step aes t2 l2 (run aes evs (step aes t1 l1 s))) =
        roomDb (run aes evs (step aes t1 l1 s)) \<and>
      outbox (step aes t2 l2 (run aes evs (step aes t1 l1 s))) =
        outbox (run aes evs (step aes t1 l1 s))"
      using h(4,6) by (rule later_leave_unobservable)
  qed
qed

lemma twoSeated_more:
  "nextConn twoSeated = 3"
  "serviceType (conns twoSeated (Suc 0)) = RoomService"
  by (simp_all add: twoSeated_def scenario_defs trim_examples)

theorem leave_idempotent_witness:
  "Suc 0 < nextConn twoSeated \<and> isOpen twoSeated (Suc 0) \<and>
   serviceType (conns twoSeated (Suc 0)) = RoomService \<and>
   handleParticipantLeave 6000 (Suc 0) (handleParticipantLeave 5000 (Suc 0) twoSeated) =
     handleParticipantLeave 5000 (Suc 0) twoSeated \<and>
   rooms (step noAes 6000 (Close (Suc 0))
            (step noAes 5000 (RoomMessage (Suc 0) leaveMsg) twoSeated)) =
     rooms (step noAes 5000 (RoomMessage (Suc 0) leaveMsg) twoSeated) \<and>
   roomDb (step noAes 6000 (Close (Suc 0))
            (step noAes 5000 (RoomMessage (Suc 0) leaveMsg) twoSeated)) =
     roomDb (step noAes 5000 (RoomMessage (Suc 0) leaveMsg) twoSeated) \<and>
   outbox (step noAes 6000 (Close (Suc 0))
            (step noAes 5000 (RoomMessage (Suc 0) leaveMsg) twoSeated)) =
     outbox (step noAes 5000 (RoomMessage (Suc 0) leaveMsg) twoSeated)"
proof -
  have n: "Suc 0 < nextConn twoSeated"
    by (simp add: twoSeated_more)
  have ty: "m_type leaveMsg = ''leave-room''"
    by (simp add: leaveMsg_def joinMsg_def)
  have r: "run noAes [] x = x" for x
    by simp
  from leave_idempotent[OF n, where ?t1.0 = 5000 and ?t2.0 = 6000 and aes = noAes
         and evs = "[]" and ?m1.0 = leaveMsg and ?m2.0 = leaveMsg
         and ?l1.0 = "RoomMessage (Suc 0) leaveMsg" and ?l2.0 = "Close (Suc 0)"]
  show ?thesis
    unfolding r using n ty twoSeated_conns(8) twoSeated_more(2) by simp
qed

section \<open>Device relay\<close>

lemma map_of_mapSet: "map_of (mapSet k v obj) = (map_of obj)(k \<mapsto> v)"
  by (induction obj) auto

lemma map_of_spread_distinct:
  assumes "distinct (map fst b)"
  shows "map_of (spread a b) = map_of a ++ map_of b"
  using assms unfolding spread_def
proof (induction b arbitrary: a)
  case Nil
  then show ?case by simp
next
  case (Cons e es)
  then have "fst e \<notin> fst ` set es"
    by simp
  then have n: "map_of es (fst e) = None"
    by (simp add: map_of_eq_None_iff)
  have eq: "(map_of a)(fst e \<mapsto> snd e) ++ map_of es =
            map_of a ++ (map_of es)(fst e \<mapsto> snd e)"
  proof (rule ext)
    fix k
    show "((map_of a)(fst e \<mapsto> snd e) ++ map_of es) k =
          (map_of a ++ (map_of es)(fst e \<mapsto> snd e)) k"
      using n by (cases "k = fst e") (simp_all add: map_add_def split: option.splits)
  qed
  have "map_of (foldl (\<lambda>obj e. mapSet (fst e) (snd e) obj) (mapSet (fst e) (snd e) a) es) =
        map_of (mapSet (fst e) (snd e) a) ++ map_of es"
    using Cons by simp
  also have "\<dots> = map_of a ++ map_of (e # es)"
    using eq by (cases e) (simp add: map_of_mapSet)
  finally show ?case
    by (simp only: foldl_Cons)
qed

lemma map_of_field: "map_of (field k v) k' = (if k' = k then jsidJson v else None)"
  by (simp add: field_def split: option.splits)

lemma distinct_payloadOf:
  assumes "distinct (map fst (d_rest m))"
    and "\<forall>k\<in>set (map fst (d_rest m)). k \<notin> set namedKeys"
  shows "distinct (map fst (payloadOf m))"
  using assms unfolding payloadOf_def field_def
  by (cases "jsidJson (d_deviceId m)"; cases "normalizeDeviceName (d_deviceName m)")
     (auto simp: namedKeys_def)

lemma map_of_payloadOf:
  assumes "\<forall>k\<in>set (map fst (d_rest m)). k \<notin> set namedKeys"
  shows "map_of (payloadOf m) k =
     (if k = ''deviceId'' then jsidJson (d_deviceId m)
      else if k = ''deviceName'' then normalizeDeviceName (d_deviceName m)
      else map_of (d_rest m) k)"
proof -
  have n: "map_of (d_rest m) ''deviceId'' = None" "map_of (d_rest m) ''deviceName'' = None"
    using assms by (auto simp: map_of_eq_None_iff namedKeys_def)
  show ?thesis
    unfolding payloadOf_def field_def
    using n
    by (cases "jsidJson (d_deviceId m)"; cases "normalizeDeviceName (d_deviceName m)")
       (simp_all add: map_add_def)
qed

lemma relay_error:
  assumes "d_type m \<in> set relayTypes" and "truthy (d_targetDeviceId m)"
    and "\<not> trimThrows (d_deviceName m)"
    and "connectedDevices s (d_targetDeviceId m) = None \<or>
         (\<exists>u. connectedDevices s (d_targetDeviceId m) = Some u \<and> \<not> isOpen s u)"
  shows "handleDeviceMessage ws m s =
         s\<lparr>outbox := outbox s @
              [(ws, ErrorMsg (''Device '' @ idString (d_targetDeviceId m) @
                              '' is not connected''))]\<rparr>"
  using assms
  by (auto simp: handleDeviceMessage_def relayTypes_def send_def split: option.splits)

lemma relay_forward:
  assumes "d_type m \<in> set relayTypes" and "truthy (d_targetDeviceId m)"
    and "\<not> trimThrows (d_deviceName m)"
    and "connectedDevices s (d_targetDeviceId m) = Some t" and "isOpen s t"
  shows "handleDeviceMessage ws m s =
         s\<lparr>outbox := outbox s @ [(t, DeviceRelay (forwardedObject s ws m))]\<rparr>"
  using assms
  by (auto simp: handleDeviceMessage_def relayTypes_def send_def split: option.splits)

lemma forwardedObject_lookup:
  assumes "distinct (map fst (d_rest m))"
    and "\<forall>k\<in>set (map fst (d_rest m)). k \<notin> set namedKeys"
  shows "map_of (forwardedObject s ws m) =
         (map_of ([(''type'', JStr (d_type m))] @
                  field ''fromDeviceId'' (ws_deviceId (conns s ws)))) ++ map_of (payloadOf m)"
  unfolding forwardedObject_def
  using assms by (intro map_of_spread_distinct distinct_payloadOf)

text \<open>A relayed message without target id is answered by the guard before the lookup.\<close>

lemma relay_missing_target:
  assumes "d_type m \<in> set relayTypes" and "\<not> truthy (d_targetDeviceId m)"
    and "\<not> trimThrows (d_deviceName m)"
  shows "handleDeviceMessage ws m s =
         s\<lparr>outbox := outbox s @ [(ws, ErrorMsg ''Missing targetDeviceId'')]\<rparr>"
  using assms
  by (auto simp: handleDeviceMessage_def relayTypes_def send_def)

text \<open>
  A \<open>deviceName\<close> that passes the test and is not a string stops the handler before it
  looks at the type: nothing is registered, forwarded or answered.
\<close>

lemma relay_trim_throws:
  assumes "trimThrows (d_deviceName m)"
  shows "handleDeviceMessage ws m s = s"
  using assms by (simp add: handleDeviceMessage_def)

text \<open>
  The payload is spread after \<open>fromDeviceId\<close>: a payload key \<open>fromDeviceId\<close> replaces the
  sender's device id in the forwarded object.
\<close>

lemma payload_sets_fromDeviceId:
  assumes "distinct (map fst (d_rest m))"
    and "\<forall>k\<in>set (map fst (d_rest m)). k \<notin> set namedKeys"
    and "mapGet (d_rest m) ''fromDeviceId'' = Some v"
  shows "mapGet (forwardedObject s ws m) ''fromDeviceId'' = Some v"
  using assms(3)
  by (simp add: mapGet_def forwardedObject_lookup[OF assms(1,2)] map_add_def
                map_of_payloadOf[OF assms(2)])

lemma twoDevices_facts:
  "connectedDevices twoDevices (Str ''D1'') = Some 0"
  "connectedDevices twoDevices (Str ''D7'') = None"
  "isOpen twoDevices 0" "isOpen twoDevices (Suc 0)"
  "ws_deviceId (conns twoDevices 0) = Str ''D1''"
  "ws_deviceId (conns twoDevices (Suc 0)) = Str ''D2''"
  "serviceType (conns twoDevices 0) = DeviceService"
  "serviceType (conns twoDevices (Suc 0)) = DeviceService"
  "nextConn twoDevices = 2"
  "deviceDb twoDevices (Str ''D1'') = Some ''online''"
  by (simp_all add: twoDevices_def scenario_defs)

lemma callMsg_facts:
  "''call-initiate'' \<in> set relayTypes"
  "truthy (d_targetDeviceId (callMsg target dname)) = (target \<noteq> [])"
  "distinct (map fst (d_rest (callMsg target dname)))"
  "\<forall>k\<in>set (map fst (d_rest (callMsg target dname))). k \<notin> set namedKeys"
  "d_targetDeviceId (callMsg target dname) = Str target"
  "d_deviceName (callMsg target dname) = Some (JStr dname)"
  "d_deviceId (callMsg target dname) = Undefined"
  "d_rest (callMsg target dname) = [(''callId'', JStr ''c1'')]"
  "d_type (callMsg target dname) = ''call-initiate''"
  "\<not> trimThrows (d_deviceName (callMsg target dname))"
  by (simp_all add: callMsg_def relayTypes_def namedKeys_def)

lemma forwarded_example:
  "forwardedObject twoDevices (Suc 0) (callMsg ''D1'' dname) =
     [(''type'', JStr ''call-initiate''), (''fromDeviceId'', JStr ''D2''),
      (''deviceName'', JStr (if trim dname = [] then ''Anonymous'' else trim dname)),
      (''callId'', JStr ''c1'')]" if "dname \<noteq> []"
  using that
  by (simp add: forwardedObject_def payloadOf_def callMsg_facts twoDevices_facts field_def
        spread_def anonymous_def)

text \<open>
  C5 (as amended). For a message of one of the ten relayed types that carries a target
  id (its payload, as any parsed object, having each key once) and whose \<open>deviceName\<close>,
  if it has one, is a string or fails the test \<open>if (payload.deviceName)\<close>: when no socket
  is registered under the target id, or the registered socket is not open, the sender
  gets one \<open>error\<close> reply naming the target id and nothing else happens. Otherwise one
  message goes to the target socket and nothing else happens; it carries the message's
  \<open>type\<close>, no \<open>targetDeviceId\<close>, the payload's \<open>deviceId\<close>, the payload's \<open>deviceName\<close>
  (a string that is not empty trimmed, \<open>Anonymous\<close> when nothing remains), every other
  payload key as it was sent, and, when the payload has no key \<open>fromDeviceId\<close> of its own,
  \<open>fromDeviceId\<close> set to the sender's device id.
\<close>

theorem device_relay:
  assumes "d_type m \<in> set relayTypes" and "truthy (d_targetDeviceId m)"
    and "distinct (map fst (d_rest m))"
    and "\<forall>k\<in>set (map fst (d_rest m)). k \<notin> set namedKeys"
    and "\<not> trimThrows (d_deviceName m)"
  shows
    "(connectedDevices s (d_targetDeviceId m) = None \<or>
      (\<exists>u. connectedDevices s (d_targetDeviceId m) = Some u \<and> \<not> isOpen s u) \<longrightarrow>
        handleDeviceMessage ws m s =
          s\<lparr>outbox := outbox s @
               [(ws, ErrorMsg (''Device '' @ idString (d_targetDeviceId m) @
                               '' is not connected''))]\<rparr>) \<and>
     (connectedDevices s (d_targetDeviceId m) = Some t \<longrightarrow> isOpen s t \<longrightarrow>
        handleDeviceMessage ws m s =
          s\<lparr>outbox := outbox s @ [(t, DeviceRelay (forwardedObject s ws m))]\<rparr> \<and>
        mapGet (forwardedObject s ws m) ''type'' = Some (JStr (d_type m)) \<and>
        mapGet (forwardedObject s ws m) ''targetDeviceId'' = None \<and>
        mapGet (forwardedObject s ws m) ''deviceId'' = jsidJson (d_deviceId m) \<and>
        mapGet (forwardedObject s ws m) ''deviceName'' =
          normalizeDeviceName (d_deviceName m) \<and>
        (\<forall>n. d_deviceName m = Some (JStr n) \<longrightarrow> n \<noteq> [] \<longrightarrow>
           mapGet (forwardedObject s ws m) ''deviceName'' =
             Some (JStr (if trim n = [] then ''Anonymous'' else trim n))) \<and>
        (mapGet (d_rest m) ''fromDeviceId'' = None \<longrightarrow>
           mapGet (forwardedObject s ws m) ''fromDeviceId'' =
             jsidJson (ws_deviceId (conns s ws))) \<and>
        (\<forall>k. k \<notin> set namedKeys \<longrightarrow> k \<noteq> ''fromDeviceId'' \<longrightarrow>
           mapGet (forwardedObject s ws m) k = mapGet (d_rest m) k))"
proof (intro conjI impI allI)
  assume "connectedDevices s (d_targetDeviceId m) = None \<or>
      (\<exists>u. connectedDevices s (d_targetDeviceId m) = Some u \<and> \<not> isOpen s u)"
  with assms(1,2,5) show "handleDeviceMessage ws m s =
          s\<lparr>outbox := outbox s @
               [(ws, ErrorMsg (''Device '' @ idString (d_targetDeviceId m) @
                               '' is not connected''))]\<rparr>"
    by (rule relay_error)
next
  assume "connectedDevices s (d_targetDeviceId m) = Some t" and "isOpen s t"
  with assms(1,2,5) show "handleDeviceMessage ws m s =
          s\<lparr>outbox := outbox s @ [(t, DeviceRelay (forwardedObject s ws m))]\<rparr>"
    by (rule relay_forward)
next
  have "map_of (d_rest m) ''type'' = None"
    using assms(4) by (auto simp: map_of_eq_None_iff namedKeys_def)
  then show "mapGet (forwardedObject s ws m) ''type'' = Some (JStr (d_type m))"
    by (simp add: mapGet_def forwardedObject_lookup[OF assms(3,4)] map_add_def
                  map_of_payloadOf[OF assms(4)])
next
  have "map_of (d_rest m) ''targetDeviceId'' = None"
    using assms(4) by (auto simp: map_of_eq_None_iff namedKeys_def)
  then show "mapGet (forwardedObject s ws m) ''targetDeviceId'' = None"
    by (simp add: mapGet_def forwardedObject_lookup[OF assms(3,4)] map_add_def
                  map_of_payloadOf[OF assms(4)] map_of_field)
next
  show "mapGet (forwardedObject s ws m) ''deviceId'' = jsidJson (d_deviceId m)"
    by (simp add: mapGet_def forwardedObject_lookup[OF assms(3,4)] map_add_def
                  map_of_payloadOf[OF assms(4)] map_of_field split: option.splits)
next
  show "mapGet (forwardedObject s ws m) ''deviceName'' =
          normalizeDeviceName (d_deviceName m)"
    by (simp add: mapGet_def forwardedObject_lookup[OF assms(3,4)] map_add_def
                  map_of_payloadOf[OF assms(4)] map_of_field split: option.splits)
next
  fix n
  assume "d_deviceName m = Some (JStr n)" and "n \<noteq> []"
  then show "mapGet (forwardedObject s ws m) ''deviceName'' =
             Some (JStr (if trim n = [] then ''Anonymous'' else trim n))"
    by (simp add: mapGet_def forwardedObject_lookup[OF assms(3,4)] map_add_def
                  map_of_payloadOf[OF assms(4)] map_of_field anonymous_def
             split: option.splits)
next
  assume "mapGet (d_rest m) ''fromDeviceId'' = None"
  then show "mapGet (forwardedObject s ws m) ''fromDeviceId'' =
             jsidJson (ws_deviceId (conns s ws))"
    by (simp add: mapGet_def forwardedObject_lookup[OF assms(3,4)] map_add_def
                  map_of_payloadOf[OF assms(4)] map_of_field)
next
  fix k
  assume "k \<notin> set namedKeys" and "k \<noteq> ''fromDeviceId''"
  then show "mapGet (forwardedObject s ws m) k = mapGet (d_rest m) k"
    by (auto simp: mapGet_def forwardedObject_lookup[OF assms(3,4)] map_add_def
                  map_of_payloadOf[OF assms(4)] map_of_field namedKeys_def
             split: option.splits)
qed

theorem device_relay_witness:
  "handleDeviceMessage (Suc 0) (callMsg ''D7'' ''Ward 3'') twoDevices =
     twoDevices\<lparr>outbox := outbox twoDevices @
                  [(Suc 0, ErrorMsg ''Device D7 is not connected'')]\<rparr> \<and>
   handleDeviceMessage (Suc 0) (callMsg ''D1'' ''Ward 3'') twoDevices =
     twoDevices\<lparr>outbox := outbox twoDevices @
       [(0, DeviceRelay [(''type'', JStr ''call-initiate''), (''fromDeviceId'', JStr ''D2''),
                         (''deviceName'', JStr ''Ward 3''), (''callId'', JStr ''c1'')])]\<rparr> \<and>
   mapGet (forwardedObject twoDevices (Suc 0) (callMsg ''D1'' ''Ward 3'')) ''fromDeviceId'' =
     Some (JStr ''D2'') \<and>
   mapGet (forwardedObject twoDevices (Suc 0) (callMsg ''D1'' ''Ward 3'')) ''callId'' =
     Some (JStr ''c1'')"
proof -
  have a: "handleDeviceMessage (Suc 0) (callMsg ''D7'' ''Ward 3'') twoDevices =
     twoDevices\<lparr>outbox := outbox twoDevices @
                  [(Suc 0, ErrorMsg ''Device D7 is not connected'')]\<rparr>"
    using device_relay[where m = "callMsg ''D7'' ''Ward 3''" and s = twoDevices
                         and ws = "Suc 0"]
    by (simp add: callMsg_facts twoDevices_facts namedKeys_def)
  have b: "handleDeviceMessage (Suc 0) (callMsg ''D1'' ''Ward 3'') twoDevices =
     twoDevices\<lparr>outbox := outbox twoDevices @
       [(0, DeviceRelay (forwardedObject twoDevices (Suc 0) (callMsg ''D1'' ''Ward 3'')))]\<rparr> \<and>
     mapGet (forwardedObject twoDevices (Suc 0) (callMsg ''D1'' ''Ward 3'')) ''fromDeviceId'' =
       Some (JStr ''D2'') \<and>
     mapGet (forwardedObject twoDevices (Suc 0) (callMsg ''D1'' ''Ward 3'')) ''callId'' =
       Some (JStr ''c1'')"
    using device_relay[where m = "callMsg ''D1'' ''Ward 3''" and s = twoDevices
                         and ws = "Suc 0" and t = 0]
    by (simp add: callMsg_facts twoDevices_facts namedKeys_def mapGet_def)
  from a b show ?thesis
    by (simp add: forwarded_example trim_examples)
qed

text \<open>
  The claim as stated fails: D2 calls D1 with \<open>deviceName\<close> padded by blanks, and D1
  receives the name trimmed, not the payload that was sent.
\<close>

theorem device_relay_counterexample:
  "handleDeviceMessage (Suc 0) (callMsg ''D1'' '' Ward 3 '') twoDevices =
     twoDevices\<lparr>outbox := outbox twoDevices @
       [(0, DeviceRelay [(''type'', JStr ''call-initiate''), (''fromDeviceId'', JStr ''D2''),
                         (''deviceName'', JStr ''Ward 3''), (''callId'', JStr ''c1'')])]\<rparr> \<and>
   d_deviceName (callMsg ''D1'' '' Ward 3 '') = Some (JStr '' Ward 3 '') \<and>
   mapGet (forwardedObject twoDevices (Suc 0) (callMsg ''D1'' '' Ward 3 '')) ''deviceName'' \<noteq>
     d_deviceName (callMsg ''D1'' '' Ward 3 '')"
proof -
  have "handleDeviceMessage (Suc 0) (callMsg ''D1'' '' Ward 3 '') twoDevices =
     twoDevices\<lparr>outbox := outbox twoDevices @
       [(0, DeviceRelay (forwardedObject twoDevices (Suc 0) (callMsg ''D1'' '' Ward 3 '')))]\<rparr>"
    by (rule relay_forward) (simp_all add: callMsg_facts twoDevices_facts)
  then show ?thesis
    by (simp add: forwarded_example trim_examples callMsg_facts mapGet_def)
qed

section \<open>Close of a superseded device socket\<close>

lemma registerMsg_facts:
  "d_type (registerMsg did) = ''register''" "d_deviceId (registerMsg did) = Str did"
  "\<not> trimThrows (d_deviceName (registerMsg did))"
  by (simp_all add: registerMsg_def)

text \<open>
  C10. Socket \<open>old\<close> holds device id \<open>did\<close>; another open device socket \<open>new\<close> sends
  \<open>register\<close> with the same id (and no \<open>deviceName\<close> on which \<open>trim\<close> throws), which binds
  the id to \<open>new\<close> in the registry. When \<open>old\<close>
  then closes, the registry entry of \<open>did\<close> is deleted and the persisted status of the
  device (if it has a document) becomes \<open>offline\<close>, although \<open>new\<close> is still open and
  still carries \<open>did\<close>: an open registered socket is no longer reachable.
\<close>

theorem superseded_close_unbinds:
  assumes "old \<noteq> new" and "old < nextConn s" and "new < nextConn s"
    and "isOpen s old" and "isOpen s new"
    and "serviceType (conns s old) = DeviceService"
    and "serviceType (conns s new) = DeviceService"
    and "ws_deviceId (conns s old) = did"
    and "d_type m = ''register''" and "d_deviceId m = did"
    and "\<not> trimThrows (d_deviceName m)"
  shows
    "connectedDevices (step aes t1 (DeviceMessage new m) s) did = Some new \<and>
     connectedDevices (step aes t2 (Close old) (step aes t1 (DeviceMessage new m) s)) did
       = None \<and>
     deviceDb (step aes t2 (Close old) (step aes t1 (DeviceMessage new m) s)) did
       = (case deviceDb s did of None \<Rightarrow> None | Some st \<Rightarrow> Some ''offline'') \<and>
     isOpen (step aes t2 (Close old) (step aes t1 (DeviceMessage new m) s)) new \<and>
     ws_deviceId (conns (step aes t2 (Close old) (step aes t1 (DeviceMessage new m) s)) new)
       = did"
proof -
  define s1 where "s1 = step aes t1 (DeviceMessage new m) s"
  have e1: "s1 = handleDeviceMessage new m s"
    using assms by (simp add: s1_def)
  have c1: "connectedDevices s1 = (connectedDevices s)(did \<mapsto> new)"
    and k1: "conns s1 = (conns s)(new := (conns s new)\<lparr>ws_deviceId := did\<rparr>)"
    and n1: "nextConn s1 = nextConn s"
    and d1: "deviceDb s1 did =
               (case deviceDb s did of None \<Rightarrow> None | Some st \<Rightarrow> Some ''online'')"
    unfolding e1 using assms(9,10,11)
    by (simp_all add: handleDeviceMessage_def updateDeviceStatus_def send_def Let_def
                 split: option.splits)
  have o1: "isOpen s1 old" "serviceType (conns s1 old) = DeviceService"
    "ws_deviceId (conns s1 old) = did"
    using assms(1,4,6,8) by (simp_all add: isOpen_def k1)
  have "step aes t2 (Close old) s1 = onClose t2 old (setClosed old s1)"
    using o1(1) assms(2) n1 by simp
  also have "\<dots> = updateDeviceStatus did ''offline''
          ((setClosed old s1)\<lparr>connectedDevices := (connectedDevices s1)(did := None)\<rparr>)"
    using o1 by (simp add: onClose_def setClosed_def)
  finally have e2: "step aes t2 (Close old) s1 =
        updateDeviceStatus did ''offline''
          ((setClosed old s1)\<lparr>connectedDevices := (connectedDevices s1)(did := None)\<rparr>)" .
  have "connectedDevices s1 did = Some new \<and>
     connectedDevices (step aes t2 (Close old) s1) did = None \<and>
     deviceDb (step aes t2 (Close old) s1) did
       = (case deviceDb s did of None \<Rightarrow> None | Some st \<Rightarrow> Some ''offline'') \<and>
     isOpen (step aes t2 (Close old) s1) new \<and>
     ws_deviceId (conns (step aes t2 (Close old) s1) new) = did"
    unfolding e2
    using assms(1,5) c1 d1
    by (simp add: updateDeviceStatus_def setClosed_def isOpen_def k1 split: option.splits)
  then show ?thesis
    by (simp only: s1_def)
qed

theorem superseded_close_unbinds_witness:
  "(0::nat) \<noteq> Suc 0 \<and> 0 < nextConn twoDevices \<and> Suc 0 < nextConn twoDevices \<and>
   isOpen twoDevices 0 \<and> isOpen twoDevices (Suc 0) \<and>
   connectedDevices (step noAes 3000 (DeviceMessage (Suc 0) (registerMsg ''D1'')) twoDevices)
     (Str ''D1'') = Some (Suc 0) \<and>
   connectedDevices (step noAes 4000 (Close 0)
      (step noAes 3000 (DeviceMessage (Suc 0) (registerMsg ''D1'')) twoDevices))
     (Str ''D1'') = None \<and>
   deviceDb (step noAes 4000 (Close 0)
      (step noAes 3000 (DeviceMessage (Suc 0) (registerMsg ''D1'')) twoDevices))
     (Str ''D1'') = Some ''offline'' \<and>
   isOpen (step noAes 4000 (Close 0)
      (step noAes 3000 (DeviceMessage (Suc 0) (registerMsg ''D1'')) twoDevices)) (Suc 0) \<and>
   ws_deviceId (conns (step noAes 4000 (Close 0)
      (step noAes 3000 (DeviceMessage (Suc 0) (registerMsg ''D1'')) twoDevices)) (Suc 0))
     = Str ''D1''"
proof -
  have h: "(0::nat) \<noteq> Suc 0" "0 < nextConn twoDevices" "Suc 0 < nextConn twoDevices"
    "isOpen twoDevices 0" "isOpen twoDevices (Suc 0)"
    by (simp_all add: twoDevices_facts)
  from superseded_close_unbinds[OF h twoDevices_facts(7,8,5) registerMsg_facts,
          where aes = noAes and ?t1.0 = 3000 and ?t2.0 = 4000]
  show ?thesis
    using h by (simp add: twoDevices_facts)
qed

section \<open>Joining a room\<close>

subsection \<open>What the store accepts\<close>

lemma validRoom_startCall [simp]: "validRoom (startCall now d) = validRoom d"
  by (simp add: validRoom_def startCall_def)

lemma nameOrAnonymous_nonempty: "nameOrAnonymous n \<noteq> []"
  by (simp add: nameOrAnonymous_def anonymous_def)

lemma validRoom_newRoom: "validRoom (newRoom now rid pid pname r) = validJoiner rid pid r"
  by (auto simp: validRoom_def newRoom_def validJoiner_def validParticipant_def
        nameOrAnonymous_nonempty)







subsection \<open>The handler case by case\<close>

lemma members_entered [simp]:
  "roomMembers ((entered rid s)\<lparr>roomDb := db\<rparr>) rid (roomObj (entered rid s) rid) = roomOf s rid"
  using entered_members[of rid s] by (simp add: roomMembers_def)

lemma setMembers_entered [simp]:
  "setRoomMembers rid (roomObj (entered rid s) rid) ps ((entered rid s)\<lparr>roomDb := db\<rparr>) =
   (entered rid s)\<lparr>roomDb := db, rooms := (rooms s)(rid \<mapsto> ps)\<rparr>"
  by (simp add: setRoomMembers_def)

lemma join_rejected:
  assumes "occupants s rid < 2" and "loadRoom now rid pid pname r (roomDb s) = None"
  shows "handleJoinRoom aes now ws rid pid pname r s = entered rid s"
  using assms(2) by (simp add: join_passes[OF assms(1)] joinLoaded_def)

lemma join_first:
  assumes "roomOf s rid = []" and "loadRoom now rid pid pname r (roomDb s) = Some (d, db)"
  shows "rooms (handleJoinRoom aes now ws rid pid pname r s) = (rooms s)(rid \<mapsto> [(pid, ws)])"
    and "roomDb (handleJoinRoom aes now ws rid pid pname r s) = db"
    and "outbox (handleJoinRoom aes now ws rid pid pname r s) =
           outbox s @ [(ws, RoomStatusWaiting rid r), (ws, chatHistory aes rid d)]"
proof -
  have o: "occupants s rid < 2"
    using assms(1) by (simp add: occupants_roomOf)
  show "rooms (handleJoinRoom aes now ws rid pid pname r s) = (rooms s)(rid \<mapsto> [(pid, ws)])"
    and "roomDb (handleJoinRoom aes now ws rid pid pname r s) = db"
    and "outbox (handleJoinRoom aes now ws rid pid pname r s) =
           outbox s @ [(ws, RoomStatusWaiting rid r), (ws, chatHistory aes rid d)]"
    using assms
    by (simp_all add: join_passes[OF o] joinLoaded_def seatJoiner_def send_def Let_def)
qed

lemma join_second:
  assumes "roomOf s rid = (oid, ows) # rest" and "occupants s rid < 2"
    and "loadRoom now rid pid pname r (roomDb s) = Some (d, db)"
    and "status d = Waiting \<longrightarrow> validRoom d"
  shows "rooms (handleJoinRoom aes now ws rid pid pname r s) =
           (rooms s)(rid \<mapsto> mapSet pid ws (roomOf s rid))"
    and "roomDb (handleJoinRoom aes now ws rid pid pname r s) =
           (if status d = Waiting then db(rid \<mapsto> startCall now d) else db)"
    and "outbox (handleJoinRoom aes now ws rid pid pname r s) =
           outbox s @
             [(ws, RoomStatusReady rid r oid (ws_participantName (conns s ows))
                     (ws_role (conns s ows))),
              (ws, chatHistory aes rid (if status d = Waiting then startCall now d else d)),
              (ows, ParticipantJoined pid pname r)]"
  using assms(1,3,4)
  by (simp_all add: join_passes[OF assms(2)] joinLoaded_def seatJoiner_def send_def save_def
        Let_def)

lemma join_second_unsaved:
  assumes "roomOf s rid = (oid, ows) # rest" and "occupants s rid < 2"
    and "loadRoom now rid pid pname r (roomDb s) = Some (d, db)"
    and "status d = Waiting" and "\<not> validRoom d"
  shows "rooms (handleJoinRoom aes now ws rid pid pname r s) =
           (rooms s)(rid \<mapsto> mapSet pid ws (roomOf s rid))"
    and "roomDb (handleJoinRoom aes now ws rid pid pname r s) = db"
    and "outbox (handleJoinRoom aes now ws rid pid pname r s) = outbox s"
  using assms(1,3,4,5)
  by (simp_all add: join_passes[OF assms(2)] joinLoaded_def seatJoiner_def send_def save_def
        Let_def)

lemma rooms_join_seated:
  assumes "occupants s rid < 2" and "loadRoom now rid pid pname r (roomDb s) = Some (d, db)"
  shows "rooms (handleJoinRoom aes now ws rid pid pname r s) =
         (rooms s)(rid \<mapsto> mapSet pid ws (roomOf s rid))"
proof (cases "roomOf s rid")
  case Nil
  then show ?thesis
    using join_first(1)[OF Nil assms(2)] by simp
next
  case (Cons e rest)
  obtain oid ows where e: "e = (oid, ows)"
    by (cases e)
  show ?thesis
  proof (cases "status d = Waiting \<and> \<not> validRoom d")
    case True
    then show ?thesis
      using join_second_unsaved(1)[OF Cons[unfolded e] assms] by simp
  next
    case False
    then show ?thesis
      using join_second(1)[OF Cons[unfolded e] assms] by blast
  qed
qed

text \<open>
  A join whose handler is answered by the store at once keeps the bound of two entries,
  and on a room with two entries does nothing but answer \<open>full\<close>.
\<close>

lemma length_mapSet: "length (mapSet k v es) \<le> Suc (length es)"
  by (induction es) auto

lemma join_keeps_capacity:
  assumes "occupants s rid' \<le> 2"
  shows "occupants (handleJoinRoom aes now ws rid pid pname r s) rid' \<le> 2"
proof (cases "2 \<le> occupants s rid")
  case True
  with assms show ?thesis
    by (simp add: join_full occupants_def send_def)
next
  case False
  then have lt: "occupants s rid < 2"
    by simp
  then have l: "length (roomOf s rid) < 2"
    by (simp add: occupants_roomOf)
  show ?thesis
  proof (cases "loadRoom now rid pid pname r (roomDb s)")
    case None
    then show ?thesis
      using assms l by (simp add: join_rejected[OF lt] occupants_def)
  next
    case (Some a)
    obtain d db where a: "a = (d, db)"
      by (cases a)
    have "length (mapSet pid ws (roomOf s rid)) \<le> 2"
      using l length_mapSet[of pid ws "roomOf s rid"] by linarith
    then show ?thesis
      using assms by (simp add: rooms_join_seated[OF lt Some[unfolded a]] occupants_def)
  qed
qed

lemma full_room_reply:
  assumes "m_type m = ''join-room''"
    and "2 \<le> occupants s (strOr (m_roomId m) (ws_roomId (conns s ws)))"
  shows "handleRoomMessage aes now ws m s =
         s\<lparr>outbox := outbox s @
              [(ws, RoomStatusFull (strOr (m_roomId m) (ws_roomId (conns s ws))))]\<rparr>"
  using assms by (simp add: handleRoomMessage_def Let_def join_full send_def)

subsection \<open>Rejoining under the same id\<close>






subsection \<open>Rejoining under a recorded id\<close>


lemma startCall_participants [simp]: "participants (startCall now d) = participants d"
  by (simp add: startCall_def)







section \<open>Session ids\<close>












section \<open>A room that has ended starts a fresh session\<close>









section \<open>Status of the persisted room\<close>

text \<open>
  C2. The join handler takes the room from \<open>waiting\<close> to \<open>active\<close> whenever the joiner
  finds one entry in the transient room, also when that entry is the joiner's own: Ann
  is seated alone in a \<open>waiting\<close> room and sends \<open>join-room\<close> again under her id. The room
  becomes \<open>active\<close> while the registry holds one entry, as it did before; it never held
  two.
\<close>

theorem same_id_join_starts_call:
  "map_option status (roomDb oneSeated ''R1'') = Some Waiting \<and>
   occupants oneSeated ''R1'' = 1 \<and>
   map_option status (roomDb (step noAes 1500 (RoomMessage 0 joinMsg) oneSeated) ''R1'')
     = Some Active \<and>
   map_option callStartTime (roomDb (step noAes 1500 (RoomMessage 0 joinMsg) oneSeated) ''R1'')
     = Some (Some 1500) \<and>
   occupants (step noAes 1500 (RoomMessage 0 joinMsg) oneSeated) ''R1'' = 1"
  by (simp add: oneSeated_def scenario_defs trim_examples)

section \<open>Chat\<close>

lemma broadcast_fold:
  "foldl (\<lambda>st e. if (inc \<or> fst e \<noteq> sender) \<and> isOpen st (snd e)
                    then send (snd e) m st else st) s ps =
   s\<lparr>outbox := outbox s @
        map (\<lambda>e. (snd e, m))
          (filter (\<lambda>e. (inc \<or> fst e \<noteq> sender) \<and> isOpen s (snd e)) ps)\<rparr>"
proof (induction ps arbitrary: s)
  case Nil
  then show ?case by simp
next
  case (Cons e es)
  let ?F = "\<lambda>st e. if (inc \<or> fst e \<noteq> sender) \<and> isOpen st (snd e)
                    then send (snd e) m st else st"
  show ?case
  proof (cases "(inc \<or> fst e \<noteq> sender) \<and> isOpen s (snd e)")
    case True
    have o: "isOpen (send (snd e) m s) = isOpen s"
      by (rule ext) simp
    have "foldl ?F s (e # es) = foldl ?F (send (snd e) m s) es"
      using True by simp
    also have "\<dots> = (send (snd e) m s)\<lparr>outbox := outbox (send (snd e) m s) @
        map (\<lambda>e. (snd e, m))
          (filter (\<lambda>e. (inc \<or> fst e \<noteq> sender) \<and> isOpen s (snd e)) es)\<rparr>"
      unfolding Cons.IH o ..
    also have "\<dots> = s\<lparr>outbox := outbox s @
        map (\<lambda>e. (snd e, m))
          (filter (\<lambda>e. (inc \<or> fst e \<noteq> sender) \<and> isOpen s (snd e)) (e # es))\<rparr>"
      using True by (simp add: send_def)
    finally show ?thesis .
  next
    case False
    then show ?thesis
      by (auto simp: Cons.IH)
  qed
qed

lemma broadcast_outbox:
  "broadcastToRoom rid sender m inc s =
   s\<lparr>outbox := outbox s @
        map (\<lambda>e. (snd e, m))
          (filter (\<lambda>e. (inc \<or> fst e \<noteq> sender) \<and> isOpen s (snd e)) (roomOf s rid))\<rparr>"
  by (simp add: broadcastToRoom_def roomOf_def broadcast_fold split: option.splits)

lemma strOr_nonempty:
  assumes "d \<noteq> []"
  shows "strOr a d \<noteq> []"
  using assms by (cases a) simp_all

lemma nameOrAnonymous_id:
  assumes "n \<noteq> []"
  shows "nameOrAnonymous n = n"
  using assms by (simp add: nameOrAnonymous_def)

lemma validRoom_addChat:
  "validRoom (addChatMessage now sid n msg d) =
     (validRoom d \<and> truthy sid \<and> n \<noteq> [] \<and> msg \<noteq> [])"
  by (auto simp: validRoom_def addChatMessage_def validChat_def)

lemma saveChat_stored:
  assumes "roomDb s rid = Some d" and "validRoom d" and "truthy sid" and "sname \<noteq> []"
    and "msg \<noteq> []"
  shows "saveChatMessage now rid sid sname msg s =
         s\<lparr>roomDb := (roomDb s)(rid \<mapsto> addChatMessage now sid sname msg d)\<rparr>"
  using assms
  by (simp add: saveChatMessage_def save_def validRoom_addChat nameOrAnonymous_id)

text \<open>
  The schema requires a sender id and a text: the \<open>save\<close> of a message without either
  throws, and \<open>saveChatMessage\<close> returns with the store as it was.
\<close>

lemma saveChat_rejected:
  assumes "\<not> truthy sid \<or> msg = []"
  shows "saveChatMessage now rid sid sname msg s = s"
  using assms by (auto simp: saveChatMessage_def save_def validRoom_addChat split: option.splits)

lemma isOpen_saveChat [simp]:
  "isOpen (saveChatMessage now rid sid sname msg s) = isOpen s"
  by (rule ext) (simp add: isOpen_def)

lemma outbox_saveChat [simp]:
  "outbox (saveChatMessage now rid sid sname msg s) = outbox s"
  by (simp add: saveChatMessage_def split: option.splits)

lemma rooms_saveChat [simp]: "rooms (saveChatMessage now rid sid sname msg s) = rooms s"
  by (simp add: saveChatMessage_def split: option.splits)

lemma roomOf_saveChat [simp]:
  "roomOf (saveChatMessage now rid sid sname msg s) = roomOf s"
  by (rule ext) (simp add: roomOf_def)

lemma others_by_key:
  assumes "\<forall>e\<in>set ps. (snd e = ws) = (fst e = pid)"
  shows "map (\<lambda>e. (snd e, m)) (filter (\<lambda>e. fst e \<noteq> pid \<and> isOpen s (snd e)) ps) =
         map (\<lambda>w. (w, m)) (filter (\<lambda>w. w \<noteq> ws \<and> isOpen s w) (map snd ps))"
  using assms by (induction ps) auto

lemma nobody_else:
  assumes "\<forall>e\<in>set ps. snd e = ws"
  shows "filter (\<lambda>w. w \<noteq> ws \<and> isOpen s w) (map snd ps) = []"
  using assms by (induction ps) auto

lemma aliasSeated_facts:
  "rooms aliasSeated ''R1'' = Some [(Str ''Z'', 0)]"
  "ws_participantId (conns aliasSeated 0) = Str ''A''"
  "ws_participantName (conns aliasSeated 0) = ''Ann''"
  "ws_roomId (conns aliasSeated 0) = ''R1''"
  "isOpen aliasSeated 0" "nextConn aliasSeated = 1"
  "serviceType (conns aliasSeated 0) = RoomService"
  by (simp_all add: aliasSeated_def scenario_defs trim_examples)

lemma annConnected_facts:
  "rooms annConnected ''R1'' = None" "roomDb annConnected = Map.empty"
  "outbox annConnected = []"
  "ws_participantId (conns annConnected 0) = Str ''A''"
  "ws_participantName (conns annConnected 0) = ''Ann''"
  "ws_roomId (conns annConnected 0) = ''R1''"
  "isOpen annConnected 0" "nextConn annConnected = 1"
  "serviceType (conns annConnected 0) = RoomService"
  by (simp_all add: annConnected_def scenario_defs trim_examples)

lemma twoSeated_chat:
  "map_option chatMessages (roomDb twoSeated ''R1'') = Some []"
  "map_option validRoom (roomDb twoSeated ''R1'') = Some True"
  by (simp_all add: twoSeated_def scenario_defs trim_examples)

lemma chatMsg_facts:
  "m_type (chatMsg msg) = ''chat-message''"
  "m_senderId (chatMsg msg) = Undefined" "m_participantId (chatMsg msg) = Undefined"
  "m_senderName (chatMsg msg) = Undefined" "m_participantName (chatMsg msg) = Undefined"
  "m_message (chatMsg msg) = Str msg"
  by (simp_all add: chatMsg_def joinMsg_def)

text \<open>
  C3 (as amended). A room socket sends \<open>chat-message\<close>; no entry of its room holds the
  socket under another id than the socket's participant id, or that id with another
  socket. When the persisted room exists and passes the validators, and the message has
  a sender id and a text that is not empty: the message is appended to the room's chat
  log and one \<open>chat-message\<close> event is sent to every other registered socket that is
  open, in registry order, and none to the sender; nothing else changes; when the room
  has no entry but the sender's, the message is persisted and nothing is sent. When the
  persisted room does not exist, nothing is persisted, and the event is sent all the same.
\<close>

theorem chat_message:
  assumes "m_type m = ''chat-message''"
    and "rid = ws_roomId (conns s ws)"
    and "sid = orElse (m_senderId m) (orElse (m_participantId m) (ws_participantId (conns s ws)))"
    and "sname = strOr (m_senderName m)
                   (strOr (m_participantName m) (nameOrAnonymous (ws_participantName (conns s ws))))"
    and "msg = strOr (m_message m) []"
    and "\<forall>e\<in>set (roomOf s rid). (snd e = ws) = (fst e = ws_participantId (conns s ws))"
  shows "(roomDb s rid = Some d \<longrightarrow> validRoom d \<longrightarrow> truthy sid \<longrightarrow> msg \<noteq> [] \<longrightarrow>
            handleRoomMessage aes now ws m s =
              s\<lparr>roomDb := (roomDb s)(rid \<mapsto> addChatMessage now sid sname msg d),
                outbox := outbox s @
                  map (\<lambda>w. (w, ChatEvent rid sid sid sname msg now))
                    (filter (\<lambda>w. w \<noteq> ws \<and> isOpen s w) (map snd (roomOf s rid)))\<rparr> \<and>
            ((\<forall>e\<in>set (roomOf s rid). snd e = ws) \<longrightarrow>
               outbox (handleRoomMessage aes now ws m s) = outbox s)) \<and>
         (roomDb s rid = None \<longrightarrow>
            handleRoomMessage aes now ws m s =
              s\<lparr>outbox := outbox s @
                  map (\<lambda>w. (w, ChatEvent rid sid sid sname msg now))
                    (filter (\<lambda>w. w \<noteq> ws \<and> isOpen s w) (map snd (roomOf s rid)))\<rparr>)"
proof -
  have sn: "sname \<noteq> []"
    unfolding assms(4) by (intro strOr_nonempty nameOrAnonymous_nonempty)
  have h: "handleRoomMessage aes now ws m s =
        broadcastToRoom rid (ws_participantId (conns s ws))
          (ChatEvent rid sid sid sname msg now) False
          (saveChatMessage now rid sid sname msg s)"
    using assms(1) by (simp add: handleRoomMessage_def Let_def assms(2,3,4,5))
  have stored: "handleRoomMessage aes now ws m s =
           s\<lparr>roomDb := (roomDb s)(rid \<mapsto> addChatMessage now sid sname msg d),
             outbox := outbox s @
               map (\<lambda>w. (w, ChatEvent rid sid sid sname msg now))
                 (filter (\<lambda>w. w \<noteq> ws \<and> isOpen s w) (map snd (roomOf s rid)))\<rparr>"
    if a: "roomDb s rid = Some d" "validRoom d" "truthy sid" "msg \<noteq> []"
  proof -
    have sv: "saveChatMessage now rid sid sname msg s =
            s\<lparr>roomDb := (roomDb s)(rid \<mapsto> addChatMessage now sid sname msg d)\<rparr>"
      using a(1,2,3) sn a(4) by (rule saveChat_stored)
    show ?thesis
      unfolding h broadcast_outbox
      by (simp add: others_by_key[OF assms(6)]) (simp add: sv)
  qed
  have missing: "handleRoomMessage aes now ws m s =
              s\<lparr>outbox := outbox s @
                  map (\<lambda>w. (w, ChatEvent rid sid sid sname msg now))
                    (filter (\<lambda>w. w \<noteq> ws \<and> isOpen s w) (map snd (roomOf s rid)))\<rparr>"
    if a: "roomDb s rid = None"
  proof -
    have sv: "saveChatMessage now rid sid sname msg s = s"
      using a by (simp add: saveChatMessage_def)
    show ?thesis
      unfolding h broadcast_outbox
      by (simp add: others_by_key[OF assms(6)]) (simp add: sv)
  qed
  show ?thesis
  proof (intro conjI impI)
    assume a: "roomDb s rid = Some d" "validRoom d" "truthy sid" "msg \<noteq> []"
    then show "handleRoomMessage aes now ws m s =
              s\<lparr>roomDb := (roomDb s)(rid \<mapsto> addChatMessage now sid sname msg d),
                outbox := outbox s @
                  map (\<lambda>w. (w, ChatEvent rid sid sid sname msg now))
                    (filter (\<lambda>w. w \<noteq> ws \<and> isOpen s w) (map snd (roomOf s rid)))\<rparr>"
      by (rule stored)
    assume "\<forall>e\<in>set (roomOf s rid). snd e = ws"
    then show "outbox (handleRoomMessage aes now ws m s) = outbox s"
      unfolding stored[OF a] by (simp add: nobody_else)
  next
    assume "roomDb s rid = None"
    then show "handleRoomMessage aes now ws m s =
              s\<lparr>outbox := outbox s @
                  map (\<lambda>w. (w, ChatEvent rid sid sid sname msg now))
                    (filter (\<lambda>w. w \<noteq> ws \<and> isOpen s w) (map snd (roomOf s rid)))\<rparr>"
      by (rule missing)
  qed
qed

theorem chat_message_witness:
  "outbox (handleRoomMessage noAes 5000 0 (chatMsg ''hello'') twoSeated) =
     outbox twoSeated @ [(1, ChatEvent ''R1'' (Str ''A'') (Str ''A'') ''Ann'' ''hello'' 5000)] \<and>
   map_option (map message \<circ> chatMessages)
     (roomDb (handleRoomMessage noAes 5000 0 (chatMsg ''hello'') twoSeated) ''R1'') =
     Some [''hello''] \<and>
   outbox (handleRoomMessage noAes 1500 0 (chatMsg ''hello'') oneSeated) = outbox oneSeated \<and>
   map_option (map message \<circ> chatMessages)
     (roomDb (handleRoomMessage noAes 1500 0 (chatMsg ''hello'') oneSeated) ''R1'') =
     Some [''hello''] \<and>
   roomDb annConnected ''R1'' = None \<and>
   handleRoomMessage noAes 2000 0 (chatMsg ''hello'') annConnected = annConnected"
proof -
  obtain d where d: "roomDb twoSeated ''R1'' = Some d" and c: "chatMessages d = []"
    and v: "validRoom d"
    using twoSeated_chat by auto
  have name: "ws_participantName (conns twoSeated 0) = ''Ann''"
    by (simp add: twoSeated_def scenario_defs trim_examples)
  have ro: "roomOf twoSeated ''R1'' = [(Str ''A'', 0), (Str ''B'', 1)]"
    by (simp add: roomOf_def twoSeated_rooms)
  have k: "\<forall>e\<in>set (roomOf twoSeated ''R1'').
             (snd e = 0) = (fst e = ws_participantId (conns twoSeated 0))"
    by (simp add: ro twoSeated_conns)
  have a: "handleRoomMessage noAes 5000 0 (chatMsg ''hello'') twoSeated =
        twoSeated\<lparr>roomDb := (roomDb twoSeated)(''R1'' \<mapsto>
                     addChatMessage 5000 (Str ''A'') ''Ann'' ''hello'' d),
                  outbox := outbox twoSeated @
                    [(1, ChatEvent ''R1'' (Str ''A'') (Str ''A'') ''Ann'' ''hello'' 5000)]\<rparr>"
    using chat_message[where m = "chatMsg ''hello''" and s = twoSeated and ws = 0
            and rid = "''R1''" and sid = "Str ''A''" and sname = "''Ann''" and msg = "''hello''"
            and d = d and aes = noAes and now = 5000, OF chatMsg_facts(1) _ _ _ _ k,
            THEN conjunct1]
          d v
    by (simp add: chatMsg_facts twoSeated_conns ro name orElse_def nameOrAnonymous_def)
  have ro1: "roomOf oneSeated ''R1'' = [(Str ''A'', 0)]"
    by (simp add: roomOf_def oneSeated_facts)
  have k1: "\<forall>e\<in>set (roomOf oneSeated ''R1'').
             (snd e = 0) = (fst e = ws_participantId (conns oneSeated 0))"
    by (simp add: ro1 oneSeated_facts)
  have v1: "validRoom (newRoom 1001 ''R1'' (Str ''A'') ''Ann'' ''admin'')"
    by (simp add: validRoom_newRoom validJoiner_def roles_def)
  have b: "handleRoomMessage noAes 1500 0 (chatMsg ''hello'') oneSeated =
        oneSeated\<lparr>roomDb := (roomDb oneSeated)(''R1'' \<mapsto>
                     addChatMessage 1500 (Str ''A'') ''Ann'' ''hello''
                       (newRoom 1001 ''R1'' (Str ''A'') ''Ann'' ''admin'')),
                  outbox := outbox oneSeated @ []\<rparr>"
    using chat_message[where m = "chatMsg ''hello''" and s = oneSeated and ws = 0
            and rid = "''R1''" and sid = "Str ''A''" and sname = "''Ann''" and msg = "''hello''"
            and aes = noAes and now = 1500
            and d = "newRoom 1001 ''R1'' (Str ''A'') ''Ann'' ''admin''",
            OF chatMsg_facts(1) _ _ _ _ k1, THEN conjunct1]
          v1
    by (simp add: chatMsg_facts oneSeated_facts ro1 orElse_def nameOrAnonymous_def)
  have ro2: "roomOf annConnected ''R1'' = []"
    by (simp add: roomOf_def annConnected_facts)
  have k2: "\<forall>e\<in>set (roomOf annConnected ''R1'').
             (snd e = 0) = (fst e = ws_participantId (conns annConnected 0))"
    by (simp add: ro2)
  have n: "roomDb annConnected ''R1'' = None"
    by (simp add: annConnected_facts)
  have e: "handleRoomMessage noAes 2000 0 (chatMsg ''hello'') annConnected = annConnected"
    using chat_message[where m = "chatMsg ''hello''" and s = annConnected and ws = 0
            and rid = "''R1''" and sid = "Str ''A''" and sname = "''Ann''" and msg = "''hello''"
            and aes = noAes and now = 2000, OF chatMsg_facts(1) _ _ _ _ k2, THEN conjunct2]
          n
    by (simp add: chatMsg_facts annConnected_facts ro2 orElse_def nameOrAnonymous_def)
  show ?thesis
    unfolding a b e by (simp add: c n addChatMessage_def newRoom_def)
qed

text \<open>
  The claim as stated fails, because \<open>saveChatMessage\<close> appends only \<open>if (dbRoom)\<close>: Ann
  has connected to room R1, for which no document exists, and sends a chat message
  before any \<open>join-room\<close>. There is no other occupant; nothing is delivered, and nothing
  is persisted either.
\<close>

theorem chat_message_counterexample:
  "roomDb annConnected ''R1'' = None \<and> rooms annConnected ''R1'' = None \<and>
   roomDb (step noAes 2000 (RoomMessage 0 (chatMsg ''hello'')) annConnected) ''R1'' = None \<and>
   outbox (step noAes 2000 (RoomMessage 0 (chatMsg ''hello'')) annConnected) = []"
proof -
  have "step noAes 2000 (RoomMessage 0 (chatMsg ''hello'')) annConnected =
        handleRoomMessage noAes 2000 0 (chatMsg ''hello'') annConnected"
    by (simp add: annConnected_facts)
  also have "\<dots> = broadcastToRoom ''R1'' (Str ''A'')
                     (ChatEvent ''R1'' (Str ''A'') (Str ''A'') ''Ann'' ''hello'' 2000) False
                     (saveChatMessage 2000 ''R1'' (Str ''A'') ''Ann'' ''hello'' annConnected)"
    by (simp add: handleRoomMessage_def chatMsg_def joinMsg_def annConnected_facts Let_def
          orElse_def nameOrAnonymous_def)
  finally show ?thesis
    by (simp add: broadcast_outbox roomOf_def annConnected_facts saveChatMessage_def)
qed

text \<open>
  The broadcast leaves out the registry key equal to the sender socket's participant id,
  not the sender socket, and \<open>join-room\<close> registers a socket under the id the message
  names: Ann's socket carries id A and is registered under id Z, and her chat message
  comes back to her.
\<close>

lemma chat_echo_under_other_id:
  "rooms aliasSeated ''R1'' = Some [(Str ''Z'', 0)] \<and>
   outbox (step noAes 2000 (RoomMessage 0 (chatMsg ''hello'')) aliasSeated) =
     outbox aliasSeated @ [(0, ChatEvent ''R1'' (Str ''A'') (Str ''A'') ''Ann'' ''hello'' 2000)]"
proof -
  have "step noAes 2000 (RoomMessage 0 (chatMsg ''hello'')) aliasSeated =
        handleRoomMessage noAes 2000 0 (chatMsg ''hello'') aliasSeated"
    by (simp add: aliasSeated_facts)
  also have "\<dots> = broadcastToRoom ''R1'' (Str ''A'')
                     (ChatEvent ''R1'' (Str ''A'') (Str ''A'') ''Ann'' ''hello'' 2000) False
                     (saveChatMessage 2000 ''R1'' (Str ''A'') ''Ann'' ''hello'' aliasSeated)"
    by (simp add: handleRoomMessage_def chatMsg_def joinMsg_def aliasSeated_facts Let_def
          orElse_def nameOrAnonymous_def)
  finally show ?thesis
    by (simp add: broadcast_outbox roomOf_def aliasSeated_facts)
qed

text \<open>An empty text is broadcast and not stored.\<close>

lemma chat_empty_text:
  "map_option chatMessages
     (roomDb (step noAes 5000 (RoomMessage 0 (chatMsg [])) twoSeated) ''R1'') = Some [] \<and>
   outbox (step noAes 5000 (RoomMessage 0 (chatMsg [])) twoSeated) =
     outbox twoSeated @ [(1, ChatEvent ''R1'' (Str ''A'') (Str ''A'') ''Ann'' [] 5000)]"
proof -
  have name: "ws_participantName (conns twoSeated 0) = ''Ann''"
    "serviceType (conns twoSeated 0) = RoomService"
    by (simp_all add: twoSeated_def scenario_defs trim_examples)
  have "step noAes 5000 (RoomMessage 0 (chatMsg [])) twoSeated =
        handleRoomMessage noAes 5000 0 (chatMsg []) twoSeated"
    by (simp add: twoSeated_conns twoSeated_more name)
  also have "\<dots> = broadcastToRoom ''R1'' (Str ''A'')
                     (ChatEvent ''R1'' (Str ''A'') (Str ''A'') ''Ann'' [] 5000) False
                     (saveChatMessage 5000 ''R1'' (Str ''A'') ''Ann'' [] twoSeated)"
    by (simp add: handleRoomMessage_def chatMsg_def joinMsg_def twoSeated_conns name Let_def
          orElse_def nameOrAnonymous_def)
  also have "saveChatMessage 5000 ''R1'' (Str ''A'') ''Ann'' [] twoSeated = twoSeated"
    by (rule saveChat_rejected) simp
  finally show ?thesis
    using twoSeated_chat(1)
    by (simp add: broadcast_outbox roomOf_def twoSeated_rooms twoSeated_conns)
qed

end
